theory Spec2Isabelle
  imports Complex_Main
begin

section \<open>Python values, exceptions and output\<close>

text \<open>
  The development embeds \<^verbatim>\<open>src/rastermap/io.py\<close>: the dictionary resolver
  \<^verbatim>\<open>_load_dict\<close>, the loader \<^verbatim>\<open>load_activity\<close> and the two sibling lookups
  \<^verbatim>\<open>_load_iscell\<close> and \<^verbatim>\<open>_load_stat\<close>.

  A numpy array is its shape and its elements in row-major order. Elements of numeric
  arrays are reals: rounding is not modelled, and no theorem below depends on the value
  of an arithmetic result, only on shapes, on which Python object is returned and on
  which exception is raised.
\<close>

record 'a ndarray =
  shape :: "nat list"
  elems :: "'a list"

type_synonym arr = "real ndarray"

definition ndim :: "'a ndarray \<Rightarrow> nat" where
  "ndim a = length (shape a)"

definition arr_size :: "'a ndarray \<Rightarrow> nat" where
  "arr_size a = prod_list (shape a)"

text \<open>numpy keeps as many elements as the shape says.\<close>

definition wf_arr :: "'a ndarray \<Rightarrow> bool" where
  "wf_arr a = (length (elems a) = prod_list (shape a))"

definition zeros :: "nat list \<Rightarrow> arr" where
  "zeros s = \<lparr>shape = s, elems = replicate (prod_list s) 0\<rparr>"

text \<open>
  Exceptions are values. The class is kept apart from the message because the source's
  \<^verbatim>\<open>except\<close> clauses select on the class. For an exception that the source raises itself
  the message is the source's string literal; for one raised by the interpreter or by
  numpy the message field holds a short tag (the unbound name, the missing attribute),
  not the interpreter's full wording, which differs between versions.
\<close>

datatype exc_class =
    Exception | ValueError | AxisError | LookupError | IndexError | KeyError
  | AttributeError | TypeError | NameError | UnboundLocalError | OSError
  | FileNotFoundError | RuntimeError | NotImplementedError | ImportError | EOFError

datatype error = Raised exc_class string

text \<open>\<^verbatim>\<open>isinstance(e, c)\<close> for the classes above, following Python's (and numpy's) hierarchy.\<close>

fun parents :: "exc_class \<Rightarrow> exc_class list" where
  "parents Exception = []"
| "parents AxisError = [ValueError, IndexError]"
| "parents IndexError = [LookupError]"
| "parents KeyError = [LookupError]"
| "parents UnboundLocalError = [NameError]"
| "parents FileNotFoundError = [OSError]"
| "parents NotImplementedError = [RuntimeError]"
| "parents c = [Exception]"

definition is_instance :: "exc_class \<Rightarrow> exc_class \<Rightarrow> bool" where
  "is_instance c d =
     (c = d \<or> d \<in> set (parents c) \<or> d \<in> set (concat (map parents (parents c)))
      \<or> d = Exception)"

fun exc_of :: "error \<Rightarrow> exc_class" where
  "exc_of (Raised c m) = c"

text \<open>What a call writes: \<^verbatim>\<open>print\<close> lines and \<^verbatim>\<open>warnings.warn\<close> warnings, in order.\<close>

datatype msg = Print string | Warn string

text \<open>A local variable that is assigned only on some paths is unbound on the others.\<close>

datatype 'a binding = Unbound | Bound 'a

definition read_local :: "string \<Rightarrow> 'a binding \<Rightarrow> error + 'a" where
  "read_local name b =
     (case b of Unbound \<Rightarrow> Inl (Raised UnboundLocalError name) | Bound v \<Rightarrow> Inr v)"

text \<open>Sequencing of steps that may raise, without and with output.\<close>

definition ebind :: "error + 'a \<Rightarrow> ('a \<Rightarrow> error + 'b) \<Rightarrow> error + 'b" where
  "ebind m f = (case m of Inl e \<Rightarrow> Inl e | Inr x \<Rightarrow> f x)"

type_synonym 'a comp = "msg list \<times> (error + 'a)"

definition ret :: "'a \<Rightarrow> 'a comp" where
  "ret x = ([], Inr x)"

definition throw :: "error \<Rightarrow> 'a comp" where
  "throw e = ([], Inl e)"

definition emit :: "msg \<Rightarrow> unit comp" where
  "emit m = ([m], Inr ())"

definition lift :: "error + 'a \<Rightarrow> 'a comp" where
  "lift r = ([], r)"

definition cbind :: "'a comp \<Rightarrow> ('a \<Rightarrow> 'b comp) \<Rightarrow> 'b comp" where
  "cbind m f =
     (case m of
        (out, Inl e) \<Rightarrow> (out, Inl e)
      | (out, Inr x) \<Rightarrow> (case f x of (out', r) \<Rightarrow> (out @ out', r)))"

section \<open>The numpy operations the source calls\<close>

text \<open>\<^verbatim>\<open>a.shape[i]\<close>: tuple indexing, negative indices count from the end.\<close>

definition shape_at :: "'a ndarray \<Rightarrow> int \<Rightarrow> error + nat" where
  "shape_at a i =
     (let n = int (ndim a); j = (if i < 0 then n + i else i)
      in if 0 \<le> j \<and> j < n then Inr (shape a ! nat j)
         else Inl (Raised IndexError ''tuple index out of range''))"

text \<open>Row-major positions: the multi-index of a flat position, and back.\<close>

fun unravel :: "nat list \<Rightarrow> nat \<Rightarrow> nat list" where
  "unravel [] k = []"
| "unravel (n # ns) k = (k div prod_list ns) # unravel ns (k mod prod_list ns)"

fun ravel :: "nat list \<Rightarrow> nat list \<Rightarrow> nat" where
  "ravel (n # ns) (i # is) = i * prod_list ns + ravel ns is"
| "ravel ns is = 0"

text \<open>\<^verbatim>\<open>a ** 2\<close> and \<^verbatim>\<open>a ** 0.5\<close>, elementwise.\<close>

definition np_square :: "arr \<Rightarrow> arr" where
  "np_square a = a\<lparr>elems := map (\<lambda>x. x * x) (elems a)\<rparr>"

definition np_sqrt :: "arr \<Rightarrow> arr" where
  "np_sqrt a = a\<lparr>elems := map sqrt (elems a)\<rparr>"

text \<open>
  \<^verbatim>\<open>a.sum(axis=0)\<close>. numpy accepts axis 0 for a 0-d array too: the sum of its one element
  is the array itself.
\<close>

definition np_sum_axis0 :: "arr \<Rightarrow> arr" where
  "np_sum_axis0 a =
     (case shape a of
        [] \<Rightarrow> a
      | n # rest \<Rightarrow>
          \<lparr>shape = rest,
           elems = map (\<lambda>j. sum_list (map (\<lambda>i. elems a ! (i * prod_list rest + j)) [0..<n]))
                      [0..<prod_list rest]\<rparr>)"

text \<open>
  \<^verbatim>\<open>a * b\<close> with broadcasting: the shapes are aligned at their last axes, two lengths
  agree when they are equal or one of them is 1.
\<close>

definition pad_shape :: "nat \<Rightarrow> nat list \<Rightarrow> nat list" where
  "pad_shape n s = replicate (n - length s) 1 @ s"

definition broadcast_shapes :: "nat list \<Rightarrow> nat list \<Rightarrow> nat list option" where
  "broadcast_shapes s t =
     (let n = max (length s) (length t); ps = zip (pad_shape n s) (pad_shape n t)
      in if list_all (\<lambda>(x, y). x = y \<or> x = 1 \<or> y = 1) ps
         then Some (map (\<lambda>(x, y). if x = 1 then y else x) ps)
         else None)"

definition bcast_index :: "nat list \<Rightarrow> nat list \<Rightarrow> nat list" where
  "bcast_index s idx =
     map (\<lambda>(n, i). if n = 1 then 0 else i) (zip s (drop (length idx - length s) idx))"

definition np_multiply :: "arr \<Rightarrow> arr \<Rightarrow> error + arr" where
  "np_multiply a b =
     (case broadcast_shapes (shape a) (shape b) of
        None \<Rightarrow> Inl (Raised ValueError ''operands could not be broadcast together'')
      | Some s \<Rightarrow>
          Inr \<lparr>shape = s,
               elems = map (\<lambda>k. elems a ! ravel (shape a) (bcast_index (shape a) (unravel s k))
                                * elems b ! ravel (shape b) (bcast_index (shape b) (unravel s k)))
                          [0..<prod_list s]\<rparr>)"

text \<open>
  \<^verbatim>\<open>np.stack((x, y), axis=1)\<close>. numpy converts both arguments to arrays first, and
  \<^verbatim>\<open>None\<close> becomes a 0-d array; it then needs equal shapes, and an axis 1 in the result.
\<close>

definition np_stack_axis1 :: "arr \<Rightarrow> arr option \<Rightarrow> error + arr" where
  "np_stack_axis1 x y =
     (if shape x = (case y of None \<Rightarrow> [] | Some b \<Rightarrow> shape b) then
        (case (shape x, y) of
           (n # rest, Some b) \<Rightarrow>
             Inr \<lparr>shape = n # 2 # rest,
                  elems = concat (map (\<lambda>i. take (prod_list rest) (drop (i * prod_list rest) (elems x))
                                          @ take (prod_list rest) (drop (i * prod_list rest) (elems b)))
                                    [0..<n])\<rparr>
         | _ \<Rightarrow> Inl (Raised AxisError ''axis 1 is out of bounds for array of dimension 1''))
      else Inl (Raised ValueError ''all input arrays must have the same shape''))"

text \<open>\<^verbatim>\<open>a.T\<close>: the axes in reverse order.\<close>

definition np_T :: "arr \<Rightarrow> arr" where
  "np_T a =
     \<lparr>shape = rev (shape a),
      elems = map (\<lambda>k. elems a ! ravel (shape a) (rev (unravel (rev (shape a)) k)))
                 [0..<prod_list (shape a)]\<rparr>"

text \<open>
  \<^verbatim>\<open>a.reshape(a.shape[0], -1)\<close>: the length of the second axis is inferred, which numpy
  refuses when the first length is 0 or does not divide the size.
\<close>

definition np_reshape_rows :: "arr \<Rightarrow> error + arr" where
  "np_reshape_rows a =
     ebind (shape_at a 0) (\<lambda>n.
       if n = 0 \<or> arr_size a mod n > 0
       then Inl (Raised ValueError ''cannot reshape array'')
       else Inr \<lparr>shape = [n, arr_size a div n], elems = elems a\<rparr>)"

section \<open>Key resolution: \<^verbatim>\<open>_load_dict\<close>\<close>

text \<open>
  A mapping of named arrays: a Python dictionary, an \<^verbatim>\<open>.npz\<close> archive or the result of
  the HDF reader. Its values are numeric arrays or \<^verbatim>\<open>None\<close> (a pickled dictionary may hold
  \<^verbatim>\<open>None\<close>). The order of the keys is the order of iteration.
\<close>

type_synonym dict = "(string \<times> arr option) list"

definition getitem :: "dict \<Rightarrow> string \<Rightarrow> error + arr option" where
  "getitem dat key =
     (case map_of dat key of None \<Rightarrow> Inl (Raised KeyError key) | Some v \<Rightarrow> Inr v)"

text \<open>
  The locals of \<^verbatim>\<open>_load_dict\<close>. Line 10 initialises \<^verbatim>\<open>X, Usv, Vsv, xpos, ypos, xy\<close> with
  \<^verbatim>\<open>None\<close>; \<^verbatim>\<open>U\<close>, \<^verbatim>\<open>V\<close> and \<^verbatim>\<open>Sv\<close> are assigned in the loop only, so they start unbound.
\<close>

record locals =
  lX :: "arr option"
  lUsv :: "arr option"
  lVsv :: "arr option"
  lxpos :: "arr option"
  lypos :: "arr option"
  lxy :: "arr option"
  lU :: "arr option binding"
  lV :: "arr option binding"
  lSv :: "arr option binding"
  other_keys :: "string list"

definition init_locals :: locals where
  "init_locals =
     \<lparr>lX = None, lUsv = None, lVsv = None, lxpos = None, lypos = None, lxy = None,
      lU = Unbound, lV = Unbound, lSv = Unbound, other_keys = []\<rparr>"

text \<open>One iteration of the loop of lines 12 to 42.\<close>

definition assign_key :: "dict \<Rightarrow> locals \<Rightarrow> string \<Rightarrow> error + locals" where
  "assign_key dat l key =
     (if key = ''Usv'' then ebind (getitem dat ''Usv'') (\<lambda>v. Inr (l\<lparr>lUsv := v\<rparr>))
      else if key = ''Vsv'' then ebind (getitem dat ''Vsv'') (\<lambda>v. Inr (l\<lparr>lVsv := v\<rparr>))
      else if key = ''U'' then ebind (getitem dat ''U'') (\<lambda>v. Inr (l\<lparr>lU := Bound v\<rparr>))
      else if key = ''U0'' then ebind (getitem dat ''U0'') (\<lambda>v. Inr (l\<lparr>lU := Bound v\<rparr>))
      else if key = ''V'' then ebind (getitem dat ''V'') (\<lambda>v. Inr (l\<lparr>lV := Bound v\<rparr>))
      else if key = ''V0'' then ebind (getitem dat ''V0'') (\<lambda>v. Inr (l\<lparr>lV := Bound v\<rparr>))
      else if key = ''Sv'' then ebind (getitem dat ''Sv'') (\<lambda>v. Inr (l\<lparr>lSv := Bound v\<rparr>))
      else if key = ''sv'' then ebind (getitem dat ''sv'') (\<lambda>v. Inr (l\<lparr>lSv := Bound v\<rparr>))
      else if key = ''X'' then ebind (getitem dat ''X'') (\<lambda>v. Inr (l\<lparr>lX := v\<rparr>))
      else if key = ''spks'' then ebind (getitem dat ''spks'') (\<lambda>v. Inr (l\<lparr>lX := v\<rparr>))
      else if key = ''xpos'' then ebind (getitem dat ''xpos'') (\<lambda>v. Inr (l\<lparr>lxpos := v\<rparr>))
      else if key = ''ypos'' then ebind (getitem dat ''ypos'') (\<lambda>v. Inr (l\<lparr>lypos := v\<rparr>))
      else if key = ''xy'' then ebind (getitem dat ''xy'') (\<lambda>v. Inr (l\<lparr>lxy := v\<rparr>))
      else if key = ''xyz'' then ebind (getitem dat ''xyz'') (\<lambda>v. Inr (l\<lparr>lxy := v\<rparr>))
      else Inr (l\<lparr>other_keys := other_keys l @ [key]\<rparr>))"

fun assign_keys :: "dict \<Rightarrow> string list \<Rightarrow> locals \<Rightarrow> error + locals" where
  "assign_keys dat [] l = Inr l"
| "assign_keys dat (key # keys) l = ebind (assign_key dat l key) (assign_keys dat keys)"

text \<open>
  The conditions of lines 45, 50, 55 and 57. \<^verbatim>\<open>and\<close> evaluates from the left and stops at
  the first false operand, so a local is read only when every operand before it holds.
\<close>

definition cond45 :: "locals \<Rightarrow> error + bool" where
  "cond45 l =
     (if lUsv l = None then
        ebind (read_local ''U'' (lU l)) (\<lambda>u.
          if u = None then Inr False
          else ebind (read_local ''Sv'' (lSv l)) (\<lambda>s. Inr (s = None)))
      else Inr False)"

definition cond50 :: "locals \<Rightarrow> error + bool" where
  "cond50 l =
     (if lVsv l = None then
        ebind (read_local ''V'' (lV l)) (\<lambda>v.
          if v = None then Inr False
          else ebind (read_local ''Sv'' (lSv l)) (\<lambda>s. Inr (s = None)))
      else Inr False)"

text \<open>
  The column norms \<^verbatim>\<open>(A**2).sum(axis=0)**0.5\<close> of lines 47 and 52.
\<close>

definition column_norms :: "arr \<Rightarrow> arr" where
  "column_norms a = np_sqrt (np_sum_axis0 (np_square a))"

text \<open>Lines 45 to 54: \<^verbatim>\<open>Sv\<close> from the scaled factor of the other side, or the error.\<close>

definition derive_Sv :: "locals \<Rightarrow> error + locals" where
  "derive_Sv l =
     ebind (cond45 l) (\<lambda>c45.
       if c45 then
         (case lVsv l of
            Some vsv \<Rightarrow> Inr (l\<lparr>lSv := Bound (Some (column_norms vsv))\<rparr>)
          | None \<Rightarrow> Inl (Raised ValueError ''no Sv scaling for PCs available''))
       else
         ebind (cond50 l) (\<lambda>c50.
           if c50 then
             (case lUsv l of
                Some usv \<Rightarrow> Inr (l\<lparr>lSv := Bound (Some (column_norms usv))\<rparr>)
              | None \<Rightarrow> Inl (Raised ValueError ''no Sv scaling for PCs available''))
           else Inr l))"

text \<open>
  Lines 55 to 58: \<^verbatim>\<open>if F is None and W is not None and Sv is not None: F = W * Sv\<close>, for
  \<^verbatim>\<open>(F, W) = (Usv, U)\<close> and then for \<^verbatim>\<open>(Vsv, V)\<close>. The result is the new value of \<^verbatim>\<open>F\<close>.
\<close>

definition scale_factor ::
  "string \<Rightarrow> arr option \<Rightarrow> arr option binding \<Rightarrow> arr option binding \<Rightarrow> error + arr option" where
  "scale_factor name f w sv =
     (if f = None then
        ebind (read_local name w) (\<lambda>w'.
          case w' of
            None \<Rightarrow> Inr f
          | Some wa \<Rightarrow>
              ebind (read_local ''Sv'' sv) (\<lambda>s'.
                case s' of
                  None \<Rightarrow> Inr f
                | Some sa \<Rightarrow> ebind (np_multiply wa sa) (\<lambda>p. Inr (Some p))))
      else Inr f)"

definition scale_factors :: "locals \<Rightarrow> error + locals" where
  "scale_factors l =
     ebind (scale_factor ''U'' (lUsv l) (lU l) (lSv l)) (\<lambda>usv.
       ebind (scale_factor ''V'' (lVsv l) (lV l) (lSv l)) (\<lambda>vsv.
         Inr (l\<lparr>lUsv := usv, lVsv := vsv\<rparr>)))"

text \<open>An attribute of an object that may be \<^verbatim>\<open>None\<close>: \<^verbatim>\<open>None\<close> has neither \<^verbatim>\<open>shape\<close> nor \<^verbatim>\<open>ndim\<close>.\<close>

definition attr_of :: "string \<Rightarrow> arr option \<Rightarrow> error + arr" where
  "attr_of name v =
     (case v of None \<Rightarrow> Inl (Raised AttributeError name) | Some a \<Rightarrow> Inr a)"

text \<open>Lines 60 to 65, in the source's order: both last lengths are read before any \<^verbatim>\<open>ndim\<close>.\<close>

definition check_factors :: "locals \<Rightarrow> error + unit" where
  "check_factors l =
     ebind (attr_of ''shape'' (lUsv l)) (\<lambda>usv.
     ebind (shape_at usv (- 1)) (\<lambda>ku.
     ebind (attr_of ''shape'' (lVsv l)) (\<lambda>vsv.
     ebind (shape_at vsv (- 1)) (\<lambda>kv.
       if ku \<noteq> kv
       then Inl (Raised ValueError ''Usv and Vsv must have the same number of components'')
       else if ndim usv > 3
       then Inl (Raised ValueError ''Usv cannot have more than 3 dimensions'')
       else if ndim vsv \<noteq> 2
       then Inl (Raised ValueError ''Vsv must have 2 dimensions'')
       else Inr ()))))"

text \<open>Lines 44 to 65: everything under \<^verbatim>\<open>if X is None\<close>.\<close>

definition factors :: "locals \<Rightarrow> error + locals" where
  "factors l =
     (if lX l = None then
        ebind (derive_Sv l) (\<lambda>l1.
        ebind (scale_factors l1) (\<lambda>l2.
        ebind (check_factors l2) (\<lambda>_. Inr l2)))
      else Inr l)"

text \<open>Lines 77 to 80: the size agreement of the coordinates; the result is the new \<^verbatim>\<open>xy\<close>.\<close>

definition check_xy_size :: "locals \<Rightarrow> arr \<Rightarrow> error + arr option" where
  "check_xy_size l xy =
     ebind (case lX l of
              None \<Rightarrow> Inr False
            | Some x \<Rightarrow> ebind (shape_at x 0) (\<lambda>nx. ebind (shape_at xy 0) (\<lambda>n. Inr (nx \<noteq> n))))
       (\<lambda>c77.
          if c77 then Inr None
          else
            ebind (attr_of ''shape'' (lUsv l)) (\<lambda>usv.
            ebind (shape_at usv 0) (\<lambda>nu.
            ebind (shape_at xy 0) (\<lambda>n.
              if nu \<noteq> n then Inr None else Inr (Some xy)))))"

text \<open>Lines 67 to 82: the coordinates. The result is the final \<^verbatim>\<open>xy\<close>.\<close>

definition coordinates :: "locals \<Rightarrow> arr option comp" where
  "coordinates l =
     cbind (case (lxpos l, lxy l) of
              (Some xp, None) \<Rightarrow> lift (ebind (np_stack_axis1 xp (lypos l)) (\<lambda>s. Inr (Some s)))
            | _ \<Rightarrow> ret (lxy l))
       (\<lambda>xy0.
          case xy0 of
            None \<Rightarrow> ret None
          | Some a \<Rightarrow>
              cbind (if ndim a \<noteq> 2 then
                       cbind (emit (Print ''cannot use xy from file: x and y positions of neurons must be 2-dimensional''))
                         (\<lambda>_. ret None)
                     else
                       cbind (lift (shape_at a 0)) (\<lambda>n.
                         if n = 2 \<or> n = 3 then ret (Some (np_T a)) else ret (Some a)))
                (\<lambda>xy1.
                   case xy1 of
                     None \<Rightarrow> ret None
                   | Some b \<Rightarrow>
                       cbind (lift (check_xy_size l b)) (\<lambda>xy2.
                         case xy2 of
                           None \<Rightarrow>
                             cbind (emit (Print ''cannot use xy from file: x and y positions of neurons are not same size as activity''))
                               (\<lambda>_. ret None)
                         | Some c \<Rightarrow> ret (Some c))))"

text \<open>\<^verbatim>\<open>_load_dict(dat, keys)\<close>, returning \<^verbatim>\<open>(X, Usv, Vsv, xy)\<close>.\<close>

type_synonym loaded = "arr option \<times> arr option \<times> arr option \<times> arr option"

definition load_dict :: "dict \<Rightarrow> string list \<Rightarrow> loaded comp" where
  "load_dict dat keys =
     cbind (lift (ebind (assign_keys dat keys init_locals) factors)) (\<lambda>l.
       cbind (coordinates l) (\<lambda>xy. ret (lX l, lUsv l, lVsv l, xy)))"

section \<open>Paths and files\<close>

text \<open>
  \<^verbatim>\<open>os.path.splitext\<close>, \<^verbatim>\<open>os.path.split\<close> and \<^verbatim>\<open>os.path.join\<close> as the standard library
  defines them for POSIX paths. \<^verbatim>\<open>p.rfind(c)\<close> is the last position of \<^verbatim>\<open>c\<close>, or -1.
\<close>

definition rfind :: "char \<Rightarrow> string \<Rightarrow> int" where
  "rfind c p =
     (if c \<in> set p then int (length p) - 1 - int (length (takeWhile (\<lambda>x. x \<noteq> c) (rev p)))
      else - 1)"

definition splitext :: "string \<Rightarrow> string \<times> string" where
  "splitext p =
     (let sepIndex = rfind (CHR ''/'') p; dotIndex = rfind (CHR ''.'') p
      in if dotIndex > sepIndex \<and>
            list_ex (\<lambda>c. c \<noteq> CHR ''.'')
              (take (nat (dotIndex - (sepIndex + 1))) (drop (nat (sepIndex + 1)) p))
         then (take (nat dotIndex) p, drop (nat dotIndex) p)
         else (p, []))"

definition rstrip :: "char \<Rightarrow> string \<Rightarrow> string" where
  "rstrip c p = rev (dropWhile (\<lambda>x. x = c) (rev p))"

definition path_split :: "string \<Rightarrow> string \<times> string" where
  "path_split p =
     (let i = nat (rfind (CHR ''/'') p + 1); head = take i p
      in (if head \<noteq> [] \<and> list_ex (\<lambda>c. c \<noteq> CHR ''/'') head then rstrip (CHR ''/'') head else head,
          drop i p))"

definition path_join :: "string \<Rightarrow> string \<Rightarrow> string" where
  "path_join a b =
     (if take 1 b = ''/'' then b
      else if a = [] \<or> last a = CHR ''/'' then a @ b
      else a @ ''/'' @ b)"

text \<open>
  What \<^verbatim>\<open>np.load\<close> can hand back: a numeric array, a 0-d object array that wraps a
  dictionary (what \<^verbatim>\<open>np.save\<close> makes of a dictionary), a 1-d object array of dictionaries
  (the records of \<^verbatim>\<open>stat.npy\<close>), or an archive of named arrays. numpy chooses by the
  file's content, not by its extension.
\<close>

datatype np_loaded =
    NdArray arr
  | ObjDict dict
  | ObjRecords "(string \<times> arr) list list"
  | NpzFile "(string \<times> arr) list"

text \<open>
  The file system and the readers are parameters of the model: \<^verbatim>\<open>sio.loadmat\<close> (its
  dictionary also holds the three bookkeeping entries, whose values are never read),
  \<^verbatim>\<open>mat73.loadmat\<close> when the package is installed, and \<^verbatim>\<open>np.load\<close> with its
  \<^verbatim>\<open>allow_pickle\<close> flag. Each either raises or returns.
\<close>

record env =
  sio_loadmat :: "string \<Rightarrow> error + (string \<times> arr) list"
  mat73_loadmat :: "(string \<Rightarrow> error + dict) option"
  np_load :: "bool \<Rightarrow> string \<Rightarrow> error + np_loaded"

definition as_dict :: "(string \<times> arr) list \<Rightarrow> dict" where
  "as_dict d = map (\<lambda>(k, a). (k, Some a)) d"

section \<open>The loader: \<^verbatim>\<open>load_activity\<close>\<close>

text \<open>
  The local \<^verbatim>\<open>X\<close> of \<^verbatim>\<open>load_activity\<close> holds, in turn, the dictionary that
  \<^verbatim>\<open>sio.loadmat\<close> returns, an array, or \<^verbatim>\<open>None\<close>. \<^verbatim>\<open>Usv\<close> and \<^verbatim>\<open>Vsv\<close> are initialised
  on line 89; \<^verbatim>\<open>xy\<close> is assigned only where \<^verbatim>\<open>_load_dict\<close> is called.
\<close>

datatype xobj = XNone | XArr arr | XDict "(string \<times> arr) list"

record frame =
  fX :: xobj
  fUsv :: "arr option"
  fVsv :: "arr option"
  fxy :: "arr option binding"

definition xobj_of :: "arr option \<Rightarrow> xobj" where
  "xobj_of v = (case v of None \<Rightarrow> XNone | Some a \<Rightarrow> XArr a)"

definition frame_of :: "loaded \<Rightarrow> frame" where
  "frame_of r =
     (case r of (x, usv, vsv, xy) \<Rightarrow> \<lparr>fX = xobj_of x, fUsv = usv, fVsv = vsv, fxy = Bound xy\<rparr>)"

definition reserved :: "string list" where
  "reserved = [''__header__'', ''__version__'', ''__globals__'']"

text \<open>
  Lines 94 to 96: the loop rebinds \<^verbatim>\<open>X\<close> to \<^verbatim>\<open>X[key]\<close> while it walks the keys of the
  dictionary it started from, so from the second data key on it indexes an array with a
  string.
\<close>

definition index_X :: "xobj \<Rightarrow> string \<Rightarrow> error + xobj" where
  "index_X x key =
     (case x of
        XDict d \<Rightarrow>
          (case map_of d key of None \<Rightarrow> Inl (Raised KeyError key) | Some a \<Rightarrow> Inr (XArr a))
      | XArr a \<Rightarrow> Inl (Raised IndexError ''only integers, slices and arrays are valid indices'')
      | XNone \<Rightarrow> Inl (Raised TypeError ''NoneType object is not subscriptable''))"

fun pick_entries :: "string list \<Rightarrow> xobj \<Rightarrow> error + xobj" where
  "pick_entries [] x = Inr x"
| "pick_entries (key # keys) x =
     (if key \<in> set reserved then pick_entries keys x
      else ebind (index_X x key) (pick_entries keys))"

text \<open>Lines 98 to 108: the handler of \<^verbatim>\<open>NotImplementedError\<close>.\<close>

definition load_mat73 :: "env \<Rightarrow> string \<Rightarrow> frame comp" where
  "load_mat73 ev filename =
     (case mat73_loadmat ev of
        None \<Rightarrow>
          cbind (emit (Print (''please '' @ [CHR 0x27] @ ''pip install mat73'' @ [CHR 0x27])))
            (\<lambda>_. throw (Raised UnboundLocalError ''mat73''))
      | Some rd \<Rightarrow>
          cbind (lift (rd filename)) (\<lambda>d.
            cbind (load_dict d (filter (\<lambda>key. key \<notin> set reserved) (map fst d)))
              (\<lambda>r. ret (frame_of r))))"

text \<open>Lines 90 to 108.\<close>

definition load_mat :: "env \<Rightarrow> string \<Rightarrow> frame comp" where
  "load_mat ev filename =
     (case ebind (sio_loadmat ev filename) (\<lambda>d. pick_entries (map fst d) (XDict d)) of
        Inr x \<Rightarrow> ret \<lparr>fX = x, fUsv = None, fVsv = None, fxy = Unbound\<rparr>
      | Inl e \<Rightarrow>
          if is_instance (exc_of e) NotImplementedError then load_mat73 ev filename
          else throw e)"

text \<open>
  Lines 109 to 114. \<^verbatim>\<open>X.item()\<close> needs an array of exactly one element; of a numeric
  array it is a number, never a dictionary.
\<close>

definition load_npy :: "env \<Rightarrow> string \<Rightarrow> frame comp" where
  "load_npy ev filename =
     cbind (lift (np_load ev True filename)) (\<lambda>obj.
       case obj of
         NdArray a \<Rightarrow>
           if arr_size a = 1
           then ret \<lparr>fX = XArr a, fUsv = None, fVsv = None, fxy = Unbound\<rparr>
           else throw (Raised ValueError ''can only convert an array of size 1 to a Python scalar'')
       | ObjDict d \<Rightarrow> cbind (load_dict d (map fst d)) (\<lambda>r. ret (frame_of r))
       | ObjRecords rs \<Rightarrow>
           (case rs of
              [r] \<Rightarrow> cbind (load_dict (as_dict r) (map fst r)) (\<lambda>r. ret (frame_of r))
            | _ \<Rightarrow> throw (Raised ValueError ''can only convert an array of size 1 to a Python scalar''))
       | NpzFile d \<Rightarrow> throw (Raised AttributeError ''item''))"

text \<open>Lines 115 to 118.\<close>

definition load_npz :: "env \<Rightarrow> string \<Rightarrow> frame comp" where
  "load_npz ev filename =
     cbind (lift (np_load ev True filename)) (\<lambda>obj.
       case obj of
         NpzFile d \<Rightarrow> cbind (load_dict (as_dict d) (map fst d)) (\<lambda>r. ret (frame_of r))
       | _ \<Rightarrow> throw (Raised AttributeError ''files''))"

text \<open>Decimal digits, for the formatted message of lines 143 to 145.\<close>

fun str_nat :: "nat \<Rightarrow> string" where
  "str_nat n =
     (if n < 10 then [''0123456789'' ! n]
      else str_nat (n div 10) @ [''0123456789'' ! (n mod 10)])"

declare str_nat.simps [simp del]

text \<open>Lines 125 to 146, for an array \<^verbatim>\<open>X\<close>; the result is the new \<^verbatim>\<open>X\<close>.\<close>

definition check_X :: "arr \<Rightarrow> arr comp" where
  "check_X x =
     cbind (if ndim x = 1 then
              throw (Raised ValueError ''ERROR: 1D array provided, but rastermap requires 2D array'')
            else if ndim x > 3 then
              throw (Raised ValueError ''ERROR: nD array provided (n>3), but rastermap requires 2D array'')
            else if ndim x = 3 then
              emit (Warn ''WARNING: 3D array provided (n>3), rastermap requires 2D array, will flatten to 2D'')
            else ret ())
       (\<lambda>_.
          cbind (lift (shape_at x 0)) (\<lambda>n.
            if n < 10 then
              throw (Raised ValueError ''ERROR: matrix with fewer than 10 neurons provided'')
            else if length (shape x) = 3 then
              cbind (lift (shape_at x (- 1))) (\<lambda>c.
              cbind (lift (shape_at x 1)) (\<lambda>t.
              cbind (emit (Print (''activity matrix has third dimension of size '' @ str_nat c
                                  @ '', flattening matrix to size ('' @ str_nat n @ '', ''
                                  @ str_nat (t * c))))
                (\<lambda>_. lift (np_reshape_rows x))))
            else ret x))"

text \<open>
  Lines 122 to 148. The bare \<^verbatim>\<open>return\<close> of line 123 is the result \<^verbatim>\<open>None\<close>; line 148
  reads \<^verbatim>\<open>xy\<close> to build the tuple.
\<close>

definition finish :: "frame \<Rightarrow> loaded option comp" where
  "finish f =
     (case fX f of
        XNone \<Rightarrow>
          if fUsv f = None \<or> fVsv f = None then ret None
          else cbind (lift (read_local ''xy'' (fxy f))) (\<lambda>xy. ret (Some (None, fUsv f, fVsv f, xy)))
      | XArr x \<Rightarrow>
          cbind (check_X x) (\<lambda>x'.
            cbind (lift (read_local ''xy'' (fxy f))) (\<lambda>xy. ret (Some (Some x', fUsv f, fVsv f, xy))))
      | XDict d \<Rightarrow> throw (Raised AttributeError ''ndim''))"

definition load_activity :: "env \<Rightarrow> string \<Rightarrow> loaded option comp" where
  "load_activity ev filename =
     (let ext = snd (splitext filename)
      in cbind (emit (Print (''Loading '' @ filename))) (\<lambda>_.
           cbind (if ext = ''.mat'' then load_mat ev filename
                  else if ext = ''.npy'' then load_npy ev filename
                  else if ext = ''.npz'' then load_npz ev filename
                  else throw (Raised Exception ''Invalid file type''))
             finish))"

section \<open>The sibling lookups: \<^verbatim>\<open>_load_iscell\<close> and \<^verbatim>\<open>_load_stat\<close>\<close>

text \<open>The classes that both \<^verbatim>\<open>except\<close> clauses (lines 157 and 168) catch.\<close>

definition caught :: "error \<Rightarrow> bool" where
  "caught e =
     list_ex (is_instance (exc_of e)) [ValueError, OSError, RuntimeError, TypeError, NameError]"

text \<open>
  \<^verbatim>\<open>a[:, j]\<close> on an array, and on the other objects that \<^verbatim>\<open>np.load\<close> can return. An
  archive looks the index up among its member names. What that raises depends on the
  versions of numpy and Python: \<^verbatim>\<open>TypeError\<close> where the index is hashed and a slice cannot
  be, \<^verbatim>\<open>KeyError\<close> otherwise. The model takes the first; the statements about the lookups
  do not depend on this branch.
\<close>

definition index_col :: "'a ndarray \<Rightarrow> nat \<Rightarrow> error + 'a ndarray" where
  "index_col a j =
     (case shape a of
        n # m # rest \<Rightarrow>
          if j < m then
            Inr \<lparr>shape = n # rest,
                 elems = concat (map (\<lambda>i. take (prod_list rest)
                                            (drop ((i * m + j) * prod_list rest) (elems a)))
                                   [0..<n])\<rparr>
          else Inl (Raised IndexError ''index is out of bounds for axis 1'')
      | _ \<Rightarrow> Inl (Raised IndexError ''too many indices for array''))"

definition loaded_col :: "np_loaded \<Rightarrow> nat \<Rightarrow> error + arr" where
  "loaded_col obj j =
     (case obj of
        NdArray a \<Rightarrow> index_col a j
      | NpzFile d \<Rightarrow> Inl (Raised TypeError ''unhashable type: slice'')
      | _ \<Rightarrow> Inl (Raised IndexError ''too many indices for array''))"

definition astype_bool :: "arr \<Rightarrow> bool ndarray" where
  "astype_bool a = \<lparr>shape = shape a, elems = map (\<lambda>x. x \<noteq> 0) (elems a)\<rparr>"

text \<open>
  Lines 154 to 156, the statements of the \<^verbatim>\<open>try\<close> block that can raise: the read, the
  column of probabilities (computed and never used) and the column of flags.
\<close>

definition iscell_body :: "env \<Rightarrow> string \<Rightarrow> error + bool ndarray" where
  "iscell_body ev file_iscell =
     ebind (np_load ev False file_iscell) (\<lambda>iscell.
     ebind (loaded_col iscell 1) (\<lambda>probcell.
     ebind (loaded_col iscell 0) (\<lambda>c0. Inr (astype_bool c0))))"

text \<open>\<^verbatim>\<open>_load_iscell(filename)\<close>: lines 150 to 160.\<close>

definition load_iscell :: "env \<Rightarrow> string \<Rightarrow> error + (bool ndarray option \<times> string option)" where
  "load_iscell ev filename =
     (let basename = fst (path_split filename);
          file_iscell = path_join basename ''iscell.npy''
      in case iscell_body ev file_iscell
         of Inr cells \<Rightarrow> Inr (Some cells, Some file_iscell)
          | Inl e \<Rightarrow> if caught e then Inr (None, None) else Inl e)"

text \<open>
  What iterating over the loaded object yields: the records of an object array, the rows
  or numbers of a numeric array, the names of an archive. A 0-d array cannot be iterated.
\<close>

datatype item = Rec "(string \<times> arr) list" | Row | Name string

definition iterate :: "np_loaded \<Rightarrow> error + item list" where
  "iterate obj =
     (case obj of
        NdArray a \<Rightarrow>
          (case shape a of
             [] \<Rightarrow> Inl (Raised TypeError ''iteration over a 0-d array'')
           | n # rest \<Rightarrow> Inr (replicate n Row))
      | ObjDict d \<Rightarrow> Inl (Raised TypeError ''iteration over a 0-d array'')
      | ObjRecords rs \<Rightarrow> Inr (map Rec rs)
      | NpzFile d \<Rightarrow> Inr (map (\<lambda>(k, a). Name k) d))"

text \<open>\<^verbatim>\<open>s["med"]\<close> for one such item.\<close>

definition med_of :: "item \<Rightarrow> error + arr" where
  "med_of s =
     (case s of
        Rec r \<Rightarrow> (case map_of r ''med'' of None \<Rightarrow> Inl (Raised KeyError ''med'') | Some a \<Rightarrow> Inr a)
      | Row \<Rightarrow> Inl (Raised IndexError ''only integers, slices and arrays are valid indices'')
      | Name k \<Rightarrow> Inl (Raised TypeError ''string indices must be integers''))"

fun emap :: "('a \<Rightarrow> error + 'b) \<Rightarrow> 'a list \<Rightarrow> error + 'b list" where
  "emap f [] = Inr []"
| "emap f (x # xs) = ebind (f x) (\<lambda>y. ebind (emap f xs) (\<lambda>ys. Inr (y # ys)))"

text \<open>
  \<^verbatim>\<open>np.array(list)\<close> of a list of arrays: equal shapes stack along a new first axis, and
  numpy (from 1.24 on) raises \<^verbatim>\<open>ValueError\<close> for unequal ones.
\<close>

definition np_array :: "arr list \<Rightarrow> error + arr" where
  "np_array xs =
     (case xs of
        [] \<Rightarrow> Inr \<lparr>shape = [0], elems = []\<rparr>
      | a # rest \<Rightarrow>
          if list_all (\<lambda>b. shape b = shape a) rest
          then Inr \<lparr>shape = length xs # shape a, elems = concat (map elems xs)\<rparr>
          else Inl (Raised ValueError ''inhomogeneous shape''))"

text \<open>
  Lines 166 and 167, the statements of the \<^verbatim>\<open>try\<close> block that can raise: the read, the
  iteration, \<^verbatim>\<open>s["med"]\<close> for each item in turn, and \<^verbatim>\<open>np.array\<close> of the list.
\<close>

definition stat_body :: "env \<Rightarrow> string \<Rightarrow> error + arr" where
  "stat_body ev file_stat =
     ebind (np_load ev True file_stat) (\<lambda>stat.
     ebind (iterate stat) (\<lambda>items.
     ebind (emap med_of items) np_array))"

text \<open>\<^verbatim>\<open>_load_stat(filename)\<close>: lines 162 to 171.\<close>

definition load_stat :: "env \<Rightarrow> string \<Rightarrow> error + (arr option \<times> string option)" where
  "load_stat ev filename =
     (let basename = fst (path_split filename);
          file_stat = path_join basename ''stat.npy''
      in case stat_body ev file_stat
         of Inr xy \<Rightarrow> Inr (Some xy, Some file_stat)
          | Inl e \<Rightarrow> if caught e then Inr (None, None) else Inl e)"

section \<open>Example files\<close>

text \<open>
  File systems for the concrete inputs below: one where no file exists, one where
  \<^verbatim>\<open>np.load\<close> returns a given object for every path, and one where \<^verbatim>\<open>sio.loadmat\<close>
  returns a given dictionary. The HDF reader is not installed in any of them.
\<close>

definition no_file :: "string \<Rightarrow> error + 'b" where
  "no_file p = Inl (Raised FileNotFoundError ''No such file or directory'')"

definition fs_empty :: env where
  "fs_empty = \<lparr>sio_loadmat = no_file, mat73_loadmat = None, np_load = (\<lambda>pickle. no_file)\<rparr>"

definition fs_npy :: "np_loaded \<Rightarrow> env" where
  "fs_npy obj = \<lparr>sio_loadmat = no_file, mat73_loadmat = None, np_load = (\<lambda>pickle p. Inr obj)\<rparr>"

definition fs_mat :: "(string \<times> arr) list \<Rightarrow> env" where
  "fs_mat d = \<lparr>sio_loadmat = (\<lambda>p. Inr d), mat73_loadmat = None, np_load = (\<lambda>pickle. no_file)\<rparr>"

section \<open>Vocabulary of the statements\<close>

text \<open>
  \<^verbatim>\<open>reads_mapping ev filename dat keys\<close>: in the file system \<^verbatim>\<open>ev\<close>, the dispatch of
  \<^verbatim>\<open>load_activity\<close> on \<^verbatim>\<open>filename\<close> calls \<^verbatim>\<open>_load_dict(dat, keys)\<close>. That is the case for
  an archive (line 118), for a pickled dictionary (line 114) and for a file that the HDF
  reader opens after \<^verbatim>\<open>sio.loadmat\<close> raised \<^verbatim>\<open>NotImplementedError\<close> (line 108).
\<close>

definition reads_mapping :: "env \<Rightarrow> string \<Rightarrow> dict \<Rightarrow> string list \<Rightarrow> bool" where
  "reads_mapping ev filename dat keys =
     (let ext = snd (splitext filename)
      in if ext = ''.npz'' then
           (case np_load ev True filename of
              Inr (NpzFile d) \<Rightarrow> dat = as_dict d \<and> keys = map fst d
            | _ \<Rightarrow> False)
         else if ext = ''.npy'' then
           (case np_load ev True filename of
              Inr (ObjDict d) \<Rightarrow> dat = d \<and> keys = map fst d
            | _ \<Rightarrow> False)
         else if ext = ''.mat'' then
           (case sio_loadmat ev filename of
              Inl e \<Rightarrow>
                is_instance (exc_of e) NotImplementedError \<and>
                (case mat73_loadmat ev of
                   Some rd \<Rightarrow>
                     (case rd filename of
                        Inr d \<Rightarrow> dat = d \<and> keys = filter (\<lambda>key. key \<notin> set reserved) (map fst d)
                      | Inl e' \<Rightarrow> False)
                 | None \<Rightarrow> False)
            | Inr d \<Rightarrow> False)
         else False)"

text \<open>
  The errors that lines 44 to 65 can raise: the four validation errors of the source, and
  the reads of the locals that line 10 leaves unbound.
\<close>

definition factor_errors :: "error list" where
  "factor_errors =
     [Raised ValueError ''no Sv scaling for PCs available'',
      Raised ValueError ''Usv and Vsv must have the same number of components'',
      Raised ValueError ''Usv cannot have more than 3 dimensions'',
      Raised ValueError ''Vsv must have 2 dimensions'',
      Raised UnboundLocalError ''U'', Raised UnboundLocalError ''V'',
      Raised UnboundLocalError ''Sv'']"

text \<open>The paths of the sibling files (lines 153 and 165).\<close>

definition iscell_path :: "string \<Rightarrow> string" where
  "iscell_path filename = path_join (fst (path_split filename)) ''iscell.npy''"

definition stat_path :: "string \<Rightarrow> string" where
  "stat_path filename = path_join (fst (path_split filename)) ''stat.npy''"

text \<open>Two mappings for the concrete inputs below.\<close>

definition unscaled_only :: "(string \<times> arr) list" where
  "unscaled_only = [(''U'', zeros [10, 2])]"

definition mismatched_with_X :: dict where
  "mismatched_with_X =
     [(''X'', Some (zeros [10, 3])), (''Usv'', Some (zeros [10, 2])), (''Vsv'', Some (zeros [5, 3]))]"

section \<open>Unfolding\<close>

lemmas comp_defs = ret_def throw_def emit_def lift_def cbind_def ebind_def

lemmas fs_defs = no_file_def fs_empty_def fs_npy_def fs_mat_def

lemmas loader_defs =
  load_activity_def load_mat_def load_npy_def load_npz_def load_mat73_def finish_def
  check_X_def frame_of_def xobj_of_def as_dict_def reserved_def index_X_def
  splitext_def rfind_def Let_def

lemmas dict_defs =
  load_dict_def factors_def derive_Sv_def cond45_def cond50_def scale_factors_def
  scale_factor_def check_factors_def attr_of_def coordinates_def check_xy_size_def
  assign_key_def getitem_def read_local_def init_locals_def

lemmas array_defs = shape_at_def ndim_def arr_size_def zeros_def

lemma ebind_Inr_iff: "ebind m f = Inr y \<longleftrightarrow> (\<exists>x. m = Inr x \<and> f x = Inr y)"
  by (cases m) (simp_all add: ebind_def)

lemma ebind_Inl_iff: "ebind m f = Inl e \<longleftrightarrow> (m = Inl e \<or> (\<exists>x. m = Inr x \<and> f x = Inl e))"
  by (cases m) (simp_all add: ebind_def)

lemma cbind_Inr:
  "cbind m f = (out, Inr y) \<Longrightarrow>
   \<exists>o1 x o2. m = (o1, Inr x) \<and> f x = (o2, Inr y) \<and> out = o1 @ o2"
  by (auto simp: cbind_def split: prod.splits sum.splits)

section \<open>What key resolution leaves in the locals\<close>

text \<open>
  Each local is changed only by its own keys, and what a key stores is the mapping's entry
  for that key.
\<close>

lemma assign_key_lX:
  "assign_key dat l key = Inr l' \<Longrightarrow> key \<noteq> ''X'' \<Longrightarrow> key \<noteq> ''spks'' \<Longrightarrow> lX l' = lX l"
  by (auto simp: assign_key_def ebind_Inr_iff split: if_splits)

lemma assign_key_lSv:
  "assign_key dat l key = Inr l' \<Longrightarrow> key \<noteq> ''Sv'' \<Longrightarrow> key \<noteq> ''sv'' \<Longrightarrow> lSv l' = lSv l"
  by (auto simp: assign_key_def ebind_Inr_iff split: if_splits)

lemma assign_key_lU:
  "assign_key dat l key = Inr l' \<Longrightarrow>
   (if key = ''U'' \<or> key = ''U0'' then \<exists>v. lU l' = Bound v \<and> map_of dat key = Some v
    else lU l' = lU l)"
  by (auto simp: assign_key_def ebind_Inr_iff getitem_def split: if_splits option.splits)

lemma assign_key_lV:
  "assign_key dat l key = Inr l' \<Longrightarrow>
   (if key = ''V'' \<or> key = ''V0'' then \<exists>v. lV l' = Bound v \<and> map_of dat key = Some v
    else lV l' = lV l)"
  by (auto simp: assign_key_def ebind_Inr_iff getitem_def split: if_splits option.splits)

lemma assign_key_lUsv:
  "assign_key dat l key = Inr l' \<Longrightarrow>
   (if key = ''Usv'' then map_of dat ''Usv'' = Some (lUsv l') else lUsv l' = lUsv l)"
  by (auto simp: assign_key_def ebind_Inr_iff getitem_def split: if_splits option.splits)

lemma assign_key_lVsv:
  "assign_key dat l key = Inr l' \<Longrightarrow>
   (if key = ''Vsv'' then map_of dat ''Vsv'' = Some (lVsv l') else lVsv l' = lVsv l)"
  by (auto simp: assign_key_def ebind_Inr_iff getitem_def split: if_splits option.splits)

lemma assign_keys_lX:
  "assign_keys dat keys l = Inr l' \<Longrightarrow> ''X'' \<notin> set keys \<Longrightarrow> ''spks'' \<notin> set keys \<Longrightarrow> lX l' = lX l"
proof (induction keys arbitrary: l)
  case Nil
  then show ?case by simp
next
  case (Cons key keys)
  from Cons.prems(1) obtain l1 where s: "assign_key dat l key = Inr l1"
    and r: "assign_keys dat keys l1 = Inr l'"
    by (auto simp: ebind_Inr_iff)
  from Cons.prems have "key \<noteq> ''X''" "key \<noteq> ''spks''" by auto
  with s have "lX l1 = lX l" by (rule assign_key_lX)
  moreover from Cons.IH [OF r] Cons.prems have "lX l' = lX l1" by simp
  ultimately show ?case by simp
qed

lemma assign_keys_lSv:
  "assign_keys dat keys l = Inr l' \<Longrightarrow> ''Sv'' \<notin> set keys \<Longrightarrow> ''sv'' \<notin> set keys \<Longrightarrow> lSv l' = lSv l"
proof (induction keys arbitrary: l)
  case Nil
  then show ?case by simp
next
  case (Cons key keys)
  from Cons.prems(1) obtain l1 where s: "assign_key dat l key = Inr l1"
    and r: "assign_keys dat keys l1 = Inr l'"
    by (auto simp: ebind_Inr_iff)
  from Cons.prems have "key \<noteq> ''Sv''" "key \<noteq> ''sv''" by auto
  with s have "lSv l1 = lSv l" by (rule assign_key_lSv)
  moreover from Cons.IH [OF r] Cons.prems have "lSv l' = lSv l1" by simp
  ultimately show ?case by simp
qed

lemma assign_keys_lUsv:
  "assign_keys dat keys l = Inr l' \<Longrightarrow>
   (if ''Usv'' \<in> set keys then map_of dat ''Usv'' = Some (lUsv l') else lUsv l' = lUsv l)"
proof (induction keys arbitrary: l)
  case Nil
  then show ?case by simp
next
  case (Cons key keys)
  from Cons.prems(1) obtain l1 where s: "assign_key dat l key = Inr l1"
    and r: "assign_keys dat keys l1 = Inr l'"
    by (auto simp: ebind_Inr_iff)
  show ?case
    using Cons.IH [OF r] assign_key_lUsv [OF s] by (auto split: if_splits)
qed

lemma assign_keys_lVsv:
  "assign_keys dat keys l = Inr l' \<Longrightarrow>
   (if ''Vsv'' \<in> set keys then map_of dat ''Vsv'' = Some (lVsv l') else lVsv l' = lVsv l)"
proof (induction keys arbitrary: l)
  case Nil
  then show ?case by simp
next
  case (Cons key keys)
  from Cons.prems(1) obtain l1 where s: "assign_key dat l key = Inr l1"
    and r: "assign_keys dat keys l1 = Inr l'"
    by (auto simp: ebind_Inr_iff)
  show ?case
    using Cons.IH [OF r] assign_key_lVsv [OF s] by (auto split: if_splits)
qed

lemma assign_keys_lU:
  "assign_keys dat keys l = Inr l' \<Longrightarrow>
   (if ''U'' \<in> set keys \<or> ''U0'' \<in> set keys
    then \<exists>v. lU l' = Bound v \<and> (map_of dat ''U'' = Some v \<or> map_of dat ''U0'' = Some v)
    else lU l' = lU l)"
proof (induction keys arbitrary: l)
  case Nil
  then show ?case by simp
next
  case (Cons key keys)
  from Cons.prems(1) obtain l1 where s: "assign_key dat l key = Inr l1"
    and r: "assign_keys dat keys l1 = Inr l'"
    by (auto simp: ebind_Inr_iff)
  show ?case
    using Cons.IH [OF r] assign_key_lU [OF s] by (auto split: if_splits)
qed

lemma assign_keys_lV:
  "assign_keys dat keys l = Inr l' \<Longrightarrow>
   (if ''V'' \<in> set keys \<or> ''V0'' \<in> set keys
    then \<exists>v. lV l' = Bound v \<and> (map_of dat ''V'' = Some v \<or> map_of dat ''V0'' = Some v)
    else lV l' = lV l)"
proof (induction keys arbitrary: l)
  case Nil
  then show ?case by simp
next
  case (Cons key keys)
  from Cons.prems(1) obtain l1 where s: "assign_key dat l key = Inr l1"
    and r: "assign_keys dat keys l1 = Inr l'"
    by (auto simp: ebind_Inr_iff)
  show ?case
    using Cons.IH [OF r] assign_key_lV [OF s] by (auto split: if_splits)
qed

text \<open>
  With \<^verbatim>\<open>Sv\<close> unbound and \<^verbatim>\<open>X\<close> absent, an unscaled factor whose opposite scaled factor is
  absent never gets past lines 44 to 65.
\<close>

lemma factors_without_Sv_U:
  "lX l = None \<Longrightarrow> lSv l = Unbound \<Longrightarrow> lVsv l = None \<Longrightarrow> lU l = Bound (Some u) \<Longrightarrow>
   \<exists>e. factors l = Inl e"
  by (cases "lUsv l"; cases "lV l")
     (auto simp: factors_def derive_Sv_def cond45_def cond50_def scale_factors_def scale_factor_def
        check_factors_def attr_of_def read_local_def ebind_def split: option.splits sum.splits)

lemma factors_without_Sv_V:
  "lX l = None \<Longrightarrow> lSv l = Unbound \<Longrightarrow> lUsv l = None \<Longrightarrow> lV l = Bound (Some v) \<Longrightarrow>
   \<exists>e. factors l = Inl e"
  by (cases "lVsv l"; cases "lU l")
     (auto simp: factors_def derive_Sv_def cond45_def cond50_def scale_factors_def scale_factor_def
        check_factors_def attr_of_def read_local_def ebind_def split: option.splits sum.splits)

text \<open>When every key has an entry, the loop of lines 12 to 42 raises nothing.\<close>

lemma assign_key_total:
  assumes "key \<in> fst ` set dat"
  shows "\<exists>l'. assign_key dat l key = Inr l'"
proof -
  from assms obtain v where m: "map_of dat key = Some v"
    by (metis domD dom_map_of_conv_image_fst)
  show ?thesis
  proof (cases "key \<in> {''Usv'', ''Vsv'', ''U'', ''U0'', ''V'', ''V0'', ''Sv'', ''sv'', ''X'',
                        ''spks'', ''xpos'', ''ypos'', ''xy'', ''xyz''}")
    case False
    then show ?thesis by (simp add: assign_key_def)
  next
    case True
    then have "key = ''Usv'' \<or> key = ''Vsv'' \<or> key = ''U'' \<or> key = ''U0'' \<or> key = ''V''
        \<or> key = ''V0'' \<or> key = ''Sv'' \<or> key = ''sv'' \<or> key = ''X'' \<or> key = ''spks''
        \<or> key = ''xpos'' \<or> key = ''ypos'' \<or> key = ''xy'' \<or> key = ''xyz''"
      by simp
    then show ?thesis
      using m by (elim disjE) (simp_all add: assign_key_def getitem_def ebind_def)
  qed
qed

lemma assign_keys_total:
  "set keys \<subseteq> fst ` set dat \<Longrightarrow> \<exists>l'. assign_keys dat keys l = Inr l'"
proof (induction keys arbitrary: l)
  case Nil
  then show ?case by simp
next
  case (Cons key keys)
  from Cons.prems assign_key_total [of key dat l] obtain l1
    where "assign_key dat l key = Inr l1" by auto
  moreover from Cons.prems Cons.IH [of l1] obtain l' where "assign_keys dat keys l1 = Inr l'"
    by auto
  ultimately show ?case by (simp add: ebind_def)
qed

section \<open>From the file to the mapping\<close>

lemma load_activity_via_dict:
  assumes "reads_mapping ev filename dat keys"
  shows "load_activity ev filename =
     cbind (emit (Print (''Loading '' @ filename))) (\<lambda>_.
       cbind (cbind (load_dict dat keys) (\<lambda>r. ret (frame_of r))) finish)"
proof -
  let ?ext = "snd (splitext filename)"
  consider (npz) "?ext = ''.npz''" | (npy) "?ext = ''.npy''" | (mat) "?ext = ''.mat''"
    using assms by (auto simp: reads_mapping_def Let_def split: if_splits)
  then show ?thesis
  proof cases
    case npz
    with assms show ?thesis
      by (auto simp: reads_mapping_def load_activity_def load_npz_def Let_def lift_def cbind_def
          split: sum.splits np_loaded.splits)
  next
    case npy
    with assms show ?thesis
      by (auto simp: reads_mapping_def load_activity_def load_npy_def Let_def lift_def cbind_def
          split: sum.splits np_loaded.splits)
  next
    case mat
    with assms show ?thesis
      by (auto simp: reads_mapping_def load_activity_def load_mat_def load_mat73_def Let_def
          lift_def cbind_def ebind_def split: sum.splits option.splits)
  qed
qed

lemma load_activity_dict_raises:
  assumes "reads_mapping ev filename dat keys" and "load_dict dat keys = (out, Inl e)"
  shows "load_activity ev filename = (Print (''Loading '' @ filename) # out, Inl e)"
  using assms(2) unfolding load_activity_via_dict [OF assms(1)]
  by (simp add: cbind_def emit_def)

lemma load_dict_factors_raise:
  assumes "assign_keys dat keys init_locals = Inr l" and "factors l = Inl e"
  shows "load_dict dat keys = ([], Inl e)"
  using assms by (simp add: load_dict_def cbind_def lift_def ebind_def)

lemma load_dict_keys_raise:
  assumes "assign_keys dat keys init_locals = Inl e"
  shows "load_dict dat keys = ([], Inl e)"
  using assms by (simp add: load_dict_def cbind_def lift_def ebind_def)

section \<open>The factor steps (lines 44 to 65)\<close>

text \<open>
  Lines 44 to 65 leave \<^verbatim>\<open>X\<close> alone, and when \<^verbatim>\<open>X\<close> is \<^verbatim>\<open>None\<close> they end without an error
  only with both \<^verbatim>\<open>Usv\<close> and \<^verbatim>\<open>Vsv\<close> bound to arrays: line 60 reads the shape of each.
\<close>

lemma derive_Sv_keeps:
  "derive_Sv l = Inr l' \<Longrightarrow> lX l' = lX l \<and> lUsv l' = lUsv l \<and> lVsv l' = lVsv l"
  by (auto simp: derive_Sv_def ebind_Inr_iff split: if_splits option.splits)

lemma scale_factors_keeps:
  "scale_factors l = Inr l' \<Longrightarrow> lX l' = lX l"
  by (auto simp: scale_factors_def ebind_Inr_iff)

lemma check_factors_pair:
  "check_factors l = Inr u \<Longrightarrow> lUsv l \<noteq> None \<and> lVsv l \<noteq> None"
  by (auto simp: check_factors_def attr_of_def ebind_Inr_iff split: option.splits)

lemma factors_pair:
  assumes "factors l = Inr l'" and "lX l = None"
  shows "lX l' = None \<and> lUsv l' \<noteq> None \<and> lVsv l' \<noteq> None"
proof -
  from assms obtain l1 u where d: "derive_Sv l = Inr l1" and s: "scale_factors l1 = Inr l'"
    and c: "check_factors l' = Inr u"
    by (auto simp: factors_def ebind_Inr_iff)
  from derive_Sv_keeps [OF d] scale_factors_keeps [OF s] assms(2) have "lX l' = None" by simp
  with check_factors_pair [OF c] show ?thesis by simp
qed

lemma factors_with_X:
  "factors l = Inr l' \<Longrightarrow> lX l \<noteq> None \<Longrightarrow> l' = l"
  by (auto simp: factors_def)

lemma load_dict_resolves:
  assumes "load_dict dat keys = (out, Inr (x, usv, vsv, xy))"
  shows "x \<noteq> None \<or> (usv \<noteq> None \<and> vsv \<noteq> None)"
proof -
  from cbind_Inr [OF assms [unfolded load_dict_def]] obtain l o2
    where l: "ebind (assign_keys dat keys init_locals) factors = Inr l"
      and r: "cbind (coordinates l) (\<lambda>xy. ret (lX l, lUsv l, lVsv l, xy)) = (o2, Inr (x, usv, vsv, xy))"
    by (auto simp: lift_def)
  from cbind_Inr [OF r] have eq: "x = lX l" "usv = lUsv l" "vsv = lVsv l"
    by (auto simp: ret_def)
  from l obtain l0 where f: "factors l0 = Inr l"
    by (auto simp: ebind_Inr_iff)
  show ?thesis
  proof (cases "lX l0")
    case None
    with factors_pair [OF f] eq show ?thesis by simp
  next
    case (Some a)
    with factors_with_X [OF f] eq show ?thesis by simp
  qed
qed

text \<open>
  The validation of lines 60 to 65 for arrays that have at least one axis: different last
  lengths, a \<^verbatim>\<open>Usv\<close> of more than three axes and a \<^verbatim>\<open>Vsv\<close> that is not 2-d are each a
  \<^verbatim>\<open>ValueError\<close>.
\<close>

lemma shape_at_last:
  "shape a \<noteq> [] \<Longrightarrow> shape_at a (- 1) = Inr (last (shape a))"
  by (simp add: shape_at_def ndim_def Let_def last_conv_nth nat_diff_distrib')

lemma check_factors_mismatch:
  assumes "lUsv l = Some u" "lVsv l = Some v" "shape u \<noteq> []" "shape v \<noteq> []"
    and "last (shape u) \<noteq> last (shape v)"
  shows "check_factors l =
     Inl (Raised ValueError ''Usv and Vsv must have the same number of components'')"
  using assms by (simp add: check_factors_def attr_of_def ebind_def shape_at_last)

lemma check_factors_Usv_dims:
  assumes "lUsv l = Some u" "lVsv l = Some v" "shape v \<noteq> []" "3 < ndim u"
  shows "check_factors l =
     Inl (Raised ValueError ''Usv and Vsv must have the same number of components'')
   \<or> check_factors l = Inl (Raised ValueError ''Usv cannot have more than 3 dimensions'')"
proof -
  from assms(4) have "shape u \<noteq> []" by (auto simp: ndim_def)
  with assms show ?thesis
    by (simp add: check_factors_def attr_of_def ebind_def shape_at_last)
qed

lemma check_factors_Vsv_dims:
  assumes "lUsv l = Some u" "lVsv l = Some v" "shape u \<noteq> []" "shape v \<noteq> []" "ndim v \<noteq> 2"
  shows "\<exists>m. check_factors l = Inl (Raised ValueError m)"
  using assms by (simp add: check_factors_def attr_of_def ebind_def shape_at_last)

text \<open>
  A 0-d \<^verbatim>\<open>Vsv\<close> gets through the derivation of line 47, since numpy sums a 0-d array over
  axis 0 to itself, and through the product of line 56; it fails at line 60.
\<close>

lemma column_norms_0d: "shape a = [] \<Longrightarrow> shape (column_norms a) = []"
  by (simp add: column_norms_def np_sum_axis0_def np_sqrt_def np_square_def)

lemma scalar_Vsv_derives_Sv_then_raises:
  "load_activity (fs_npy (ObjDict [(''U'', Some (zeros [10, 2])), (''Sv'', None),
       (''Vsv'', Some (zeros []))])) ''a.npy'' =
     ([Print ''Loading a.npy''], Inl (Raised IndexError ''tuple index out of range''))"
  by (simp add: loader_defs dict_defs array_defs comp_defs fs_defs column_norms_def
      np_sum_axis0_def np_sqrt_def np_square_def np_multiply_def broadcast_shapes_def pad_shape_def)

section \<open>The coordinate step (lines 67 to 82)\<close>

text \<open>
  Coordinates that survive line 82 have as many rows as \<^verbatim>\<open>Usv\<close>, which must then be an
  array, and as many rows as \<^verbatim>\<open>X\<close> when \<^verbatim>\<open>X\<close> is present.
\<close>

lemma check_xy_size_agrees:
  assumes "check_xy_size l b = Inr (Some c)"
  shows "c = b \<and> (\<exists>u n. lUsv l = Some u \<and> shape_at u 0 = Inr n \<and> shape_at c 0 = Inr n)
       \<and> (\<forall>x. lX l = Some x \<longrightarrow> shape_at x 0 = shape_at c 0)"
  using assms
  by (auto simp: check_xy_size_def attr_of_def ebind_Inr_iff split: option.splits if_splits)

lemma coordinates_agree:
  assumes "coordinates l = (out, Inr (Some c))"
  shows "(\<exists>u n. lUsv l = Some u \<and> shape_at u 0 = Inr n \<and> shape_at c 0 = Inr n)
       \<and> (\<forall>x. lX l = Some x \<longrightarrow> shape_at x 0 = shape_at c 0)"
proof -
  from cbind_Inr [OF assms [unfolded coordinates_def]] obtain xy0 o2 where
    s2: "(case xy0 of
            None \<Rightarrow> ret None
          | Some a \<Rightarrow>
              cbind (if ndim a \<noteq> 2 then
                       cbind (emit (Print ''cannot use xy from file: x and y positions of neurons must be 2-dimensional''))
                         (\<lambda>_. ret None)
                     else
                       cbind (lift (shape_at a 0)) (\<lambda>n.
                         if n = 2 \<or> n = 3 then ret (Some (np_T a)) else ret (Some a)))
                (\<lambda>xy1.
                   case xy1 of
                     None \<Rightarrow> ret None
                   | Some b \<Rightarrow>
                       cbind (lift (check_xy_size l b)) (\<lambda>xy2.
                         case xy2 of
                           None \<Rightarrow>
                             cbind (emit (Print ''cannot use xy from file: x and y positions of neurons are not same size as activity''))
                               (\<lambda>_. ret None)
                         | Some c \<Rightarrow> ret (Some c)))) = (o2, Inr (Some c))"
    by auto
  then obtain a where a: "xy0 = Some a" by (cases xy0) (auto simp: ret_def)
  from cbind_Inr [OF s2 [unfolded a option.case]] obtain xy1 o3 where
    s3: "(case xy1 of
            None \<Rightarrow> ret None
          | Some b \<Rightarrow>
              cbind (lift (check_xy_size l b)) (\<lambda>xy2.
                case xy2 of
                  None \<Rightarrow>
                    cbind (emit (Print ''cannot use xy from file: x and y positions of neurons are not same size as activity''))
                      (\<lambda>_. ret None)
                | Some c \<Rightarrow> ret (Some c))) = (o3, Inr (Some c))"
    by auto
  then obtain b where b: "xy1 = Some b" by (cases xy1) (auto simp: ret_def)
  from cbind_Inr [OF s3 [unfolded b option.case]] obtain xy2 o4 o5 where
    c0: "lift (check_xy_size l b) = (o4, Inr xy2)"
    and r: "(case xy2 of
               None \<Rightarrow>
                 cbind (emit (Print ''cannot use xy from file: x and y positions of neurons are not same size as activity''))
                   (\<lambda>_. ret None)
             | Some c \<Rightarrow> ret (Some c)) = (o5, Inr (Some c))"
    by blast
  from c0 have c: "check_xy_size l b = Inr xy2" by (simp add: lift_def)
  from r have "xy2 = Some c"
    by (cases xy2) (auto simp: ret_def cbind_def emit_def)
  with c have "check_xy_size l b = Inr (Some c)" by simp
  from check_xy_size_agrees [OF this] show ?thesis by blast
qed

lemma load_dict_xy_agrees:
  assumes "load_dict dat keys = (out, Inr (x, usv, vsv, Some c))"
  shows "(\<exists>u n. usv = Some u \<and> shape_at u 0 = Inr n \<and> shape_at c 0 = Inr n)
       \<and> (\<forall>a. x = Some a \<longrightarrow> shape_at a 0 = shape_at c 0)"
proof -
  from cbind_Inr [OF assms [unfolded load_dict_def]] obtain l o2
    where r: "cbind (coordinates l) (\<lambda>xy. ret (lX l, lUsv l, lVsv l, xy)) = (o2, Inr (x, usv, vsv, Some c))"
    by auto
  from cbind_Inr [OF r] obtain o3 where co: "coordinates l = (o3, Inr (Some c))"
    and eq: "x = lX l" "usv = lUsv l"
    by (auto simp: ret_def)
  from coordinates_agree [OF co] eq show ?thesis by simp
qed

text \<open>The errors that the coordinate step can raise, and the step without coordinates.\<close>

lemma shape_at_error:
  "shape_at a i = Inl e \<Longrightarrow> e = Raised IndexError ''tuple index out of range''"
  by (auto simp: shape_at_def Let_def split: if_splits)

lemma np_stack_axis1_error:
  "np_stack_axis1 x y = Inl e \<Longrightarrow>
   e = Raised ValueError ''all input arrays must have the same shape'' \<or>
   e = Raised AxisError ''axis 1 is out of bounds for array of dimension 1''"
  by (auto simp: np_stack_axis1_def split: if_splits list.splits option.splits)

lemma check_xy_size_error:
  "check_xy_size l b = Inl e \<Longrightarrow>
   e = Raised IndexError ''tuple index out of range'' \<or> e = Raised AttributeError ''shape''"
  by (auto simp: check_xy_size_def attr_of_def ebind_Inl_iff ebind_Inr_iff
      dest!: shape_at_error split: option.splits if_splits)

lemma coordinates_error:
  assumes "coordinates l = (out, Inl e)"
  shows "e \<in> {Raised ValueError ''all input arrays must have the same shape'',
              Raised AxisError ''axis 1 is out of bounds for array of dimension 1'',
              Raised IndexError ''tuple index out of range'',
              Raised AttributeError ''shape''}"
  using assms
  by (auto simp: coordinates_def cbind_def lift_def ret_def emit_def ebind_Inl_iff
      dest!: shape_at_error np_stack_axis1_error check_xy_size_error
      split: option.splits if_splits sum.splits prod.splits)

lemma coordinates_none:
  "lxpos l = None \<Longrightarrow> lxy l = None \<Longrightarrow> coordinates l = ([], Inr None)"
  by (simp add: coordinates_def cbind_def ret_def)

section \<open>What the dispatch hands to the final checks\<close>

text \<open>
  After the dispatch of lines 90 to 120 either \<^verbatim>\<open>X\<close> is not \<^verbatim>\<open>None\<close> or both factors are
  bound, so the bare \<^verbatim>\<open>return\<close> of line 123 is never reached; and a path that did not call
  \<^verbatim>\<open>_load_dict\<close> has left \<^verbatim>\<open>xy\<close> unbound, so line 148 raises.
\<close>

lemma cbind_ret_frame:
  "cbind (load_dict dat keys) (\<lambda>r. ret (frame_of r)) = (out, Inr f) \<Longrightarrow>
   fX f \<noteq> XNone \<or> (fUsv f \<noteq> None \<and> fVsv f \<noteq> None)"
proof -
  assume a: "cbind (load_dict dat keys) (\<lambda>r. ret (frame_of r)) = (out, Inr f)"
  from cbind_Inr [OF a] obtain o1 r where ld: "load_dict dat keys = (o1, Inr r)"
    and f: "f = frame_of r"
    by (auto simp: ret_def)
  obtain x usv vsv xy where r: "r = (x, usv, vsv, xy)" by (cases r) auto
  from load_dict_resolves [OF ld [unfolded r]] f r show ?thesis
    by (auto simp: frame_of_def xobj_of_def split: option.splits)
qed

lemma pick_entries_not_None:
  "pick_entries keys x = Inr x' \<Longrightarrow> x \<noteq> XNone \<Longrightarrow> x' \<noteq> XNone"
proof (induction keys arbitrary: x)
  case Nil
  then show ?case by simp
next
  case (Cons key keys)
  show ?case
  proof (cases "key \<in> set reserved")
    case True
    with Cons show ?thesis by simp
  next
    case False
    with Cons.prems obtain x1 where i: "index_X x key = Inr x1"
      and r: "pick_entries keys x1 = Inr x'"
      by (auto simp: ebind_Inr_iff)
    from i have "x1 \<noteq> XNone"
      by (auto simp: index_X_def split: xobj.splits option.splits)
    with Cons.IH [OF r] show ?thesis by simp
  qed
qed

lemma load_mat73_frame:
  "load_mat73 ev filename = (out, Inr f) \<Longrightarrow>
   fX f \<noteq> XNone \<or> (fUsv f \<noteq> None \<and> fVsv f \<noteq> None)"
proof (cases "mat73_loadmat ev")
  case None
  assume "load_mat73 ev filename = (out, Inr f)"
  with None show ?thesis
    by (simp add: load_mat73_def cbind_def emit_def throw_def)
next
  case (Some rd)
  assume a: "load_mat73 ev filename = (out, Inr f)"
  from cbind_Inr [OF a [unfolded load_mat73_def Some option.case]] obtain d o2
    where "cbind (load_dict d (filter (\<lambda>key. key \<notin> set reserved) (map fst d)))
             (\<lambda>r. ret (frame_of r)) = (o2, Inr f)"
    by auto
  then show ?thesis by (rule cbind_ret_frame)
qed

lemma load_mat_frame:
  assumes "load_mat ev filename = (out, Inr f)"
  shows "fX f \<noteq> XNone \<or> (fUsv f \<noteq> None \<and> fVsv f \<noteq> None)"
proof (cases "ebind (sio_loadmat ev filename) (\<lambda>d. pick_entries (map fst d) (XDict d))")
  case (Inr x)
  then obtain d where "pick_entries (map fst d) (XDict d) = Inr x"
    by (auto simp: ebind_Inr_iff)
  from pick_entries_not_None [OF this] have "x \<noteq> XNone" by simp
  with assms Inr show ?thesis
    by (auto simp: load_mat_def ret_def)
next
  case (Inl e)
  with assms have "load_mat73 ev filename = (out, Inr f)"
    by (auto simp: load_mat_def throw_def split: if_splits)
  then show ?thesis by (rule load_mat73_frame)
qed

lemma load_npy_frame:
  assumes "load_npy ev filename = (out, Inr f)"
  shows "fX f \<noteq> XNone \<or> (fUsv f \<noteq> None \<and> fVsv f \<noteq> None)"
proof -
  from cbind_Inr [OF assms [unfolded load_npy_def]] obtain obj o2 where
    b: "(case obj of
         NdArray a \<Rightarrow>
           if arr_size a = 1
           then ret \<lparr>fX = XArr a, fUsv = None, fVsv = None, fxy = Unbound\<rparr>
           else throw (Raised ValueError ''can only convert an array of size 1 to a Python scalar'')
       | ObjDict d \<Rightarrow> cbind (load_dict d (map fst d)) (\<lambda>r. ret (frame_of r))
       | ObjRecords rs \<Rightarrow>
           (case rs of
              [r] \<Rightarrow> cbind (load_dict (as_dict r) (map fst r)) (\<lambda>r. ret (frame_of r))
            | _ \<Rightarrow> throw (Raised ValueError ''can only convert an array of size 1 to a Python scalar''))
       | NpzFile d \<Rightarrow> throw (Raised AttributeError ''item'')) = (o2, Inr f)"
    by auto
  show ?thesis
  proof (cases obj)
    case (NdArray a)
    with b show ?thesis by (auto simp: ret_def throw_def split: if_splits)
  next
    case (ObjDict d)
    with b show ?thesis by (auto dest: cbind_ret_frame)
  next
    case (ObjRecords rs)
    with b show ?thesis
      by (auto simp: throw_def dest: cbind_ret_frame split: list.splits)
  next
    case (NpzFile d)
    with b show ?thesis by (simp add: throw_def)
  qed
qed

lemma load_npz_frame:
  assumes "load_npz ev filename = (out, Inr f)"
  shows "fX f \<noteq> XNone \<or> (fUsv f \<noteq> None \<and> fVsv f \<noteq> None)"
proof -
  from cbind_Inr [OF assms [unfolded load_npz_def]] obtain obj o2 where
    b: "(case obj of
         NpzFile d \<Rightarrow> cbind (load_dict (as_dict d) (map fst d)) (\<lambda>r. ret (frame_of r))
       | _ \<Rightarrow> throw (Raised AttributeError ''files'')) = (o2, Inr f)"
    by auto
  then show ?thesis
    by (cases obj) (auto simp: throw_def dest: cbind_ret_frame)
qed

lemma finish_not_null:
  assumes "fX f \<noteq> XNone \<or> (fUsv f \<noteq> None \<and> fVsv f \<noteq> None)"
  shows "finish f \<noteq> (out, Inr None)"
proof (cases "fX f")
  case XNone
  with assms show ?thesis
    by (auto simp: finish_def cbind_def lift_def ret_def split: sum.splits)
next
  case (XArr x)
  then show ?thesis
    by (auto simp: finish_def ret_def dest!: cbind_Inr)
next
  case (XDict d)
  then show ?thesis by (simp add: finish_def throw_def)
qed

lemma finish_unbound_xy:
  assumes "fxy f = Unbound" and "fX f \<noteq> XNone"
  shows "\<exists>out e. finish f = (out, Inl e)"
proof (cases "fX f")
  case XNone
  with assms show ?thesis by simp
next
  case (XArr x)
  obtain o1 r where c: "check_X x = (o1, r)" by (cases "check_X x") auto
  show ?thesis
  proof (cases r)
    case (Inl e)
    with c XArr show ?thesis by (simp add: finish_def cbind_def)
  next
    case (Inr x')
    with c XArr assms(1) show ?thesis
      by (simp add: finish_def cbind_def lift_def read_local_def)
  qed
next
  case (XDict d)
  then show ?thesis by (simp add: finish_def throw_def)
qed

section \<open>Plain arrays (claim C1)\<close>

text \<open>
  No file that holds a plain array is ever loaded: a \<^verbatim>\<open>.npy\<close> file raises whatever the
  array, with the \<^verbatim>\<open>ValueError\<close> of \<^verbatim>\<open>X.item()\<close> for a 2-d array of ten rows or more, and a
  \<^verbatim>\<open>.mat\<close> file that \<^verbatim>\<open>sio.loadmat\<close> reads raises whatever it holds.
\<close>

lemma plain_npy_array_raises:
  assumes ext: "snd (splitext filename) = ''.npy''"
    and rd: "np_load ev True filename = Inr (NdArray a)"
  shows "\<exists>out e. load_activity ev filename = (out, Inl e)"
proof (cases "arr_size a = 1")
  case False
  with ext rd show ?thesis
    by (simp add: load_activity_def load_npy_def Let_def cbind_def emit_def lift_def throw_def)
next
  case True
  let ?f = "\<lparr>fX = XArr a, fUsv = None, fVsv = None, fxy = Unbound\<rparr>"
  from finish_unbound_xy [of ?f] obtain o2 e where "finish ?f = (o2, Inl e)" by auto
  with True ext rd show ?thesis
    by (simp add: load_activity_def load_npy_def Let_def cbind_def emit_def lift_def ret_def)
qed

lemma plain_2d_npy_array_raises:
  assumes ext: "snd (splitext filename) = ''.npy''"
    and rd: "np_load ev True filename = Inr (NdArray a)"
    and shp: "shape a = [n, t]" and rows: "10 \<le> n"
  shows "load_activity ev filename =
     ([Print (''Loading '' @ filename)],
      Inl (Raised ValueError ''can only convert an array of size 1 to a Python scalar''))"
proof -
  from shp rows have "arr_size a \<noteq> 1" by (auto simp: arr_size_def)
  with ext rd show ?thesis
    by (simp add: load_activity_def load_npy_def Let_def cbind_def emit_def lift_def throw_def)
qed

lemma index_X_error_class:
  "index_X x key = Inl e \<Longrightarrow> \<not> is_instance (exc_of e) NotImplementedError"
  by (auto simp: index_X_def is_instance_def split: xobj.splits option.splits)

lemma pick_entries_error_class:
  "pick_entries keys x = Inl e \<Longrightarrow> \<not> is_instance (exc_of e) NotImplementedError"
proof (induction keys arbitrary: x)
  case Nil
  then show ?case by simp
next
  case (Cons key keys)
  then show ?case
    by (auto simp: ebind_Inl_iff dest: index_X_error_class split: if_splits)
qed

lemma plain_mat_raises:
  assumes ext: "snd (splitext filename) = ''.mat''"
    and rd: "sio_loadmat ev filename = Inr d"
  shows "\<exists>out e. load_activity ev filename = (out, Inl e)"
proof (cases "pick_entries (map fst d) (XDict d)")
  case (Inl e)
  from pick_entries_error_class [OF Inl] Inl ext rd show ?thesis
    by (simp add: load_activity_def load_mat_def Let_def cbind_def emit_def throw_def ebind_def)
next
  case (Inr x)
  let ?f = "\<lparr>fX = x, fUsv = None, fVsv = None, fxy = Unbound\<rparr>"
  from pick_entries_not_None [OF Inr] have "fX ?f \<noteq> XNone" by simp
  from finish_unbound_xy [OF _ this] obtain o2 e where "finish ?f = (o2, Inl e)" by auto
  with Inr ext rd show ?thesis
    by (simp add: load_activity_def load_mat_def Let_def cbind_def emit_def ret_def ebind_def)
qed

text \<open>
  Claim C1: for every supported extension, loading a file whose payload is a plain 2D
  array of shape (N, T) with N at least 10 returns that array unchanged as \<^verbatim>\<open>X\<close>, with
  \<^verbatim>\<open>Usv\<close>, \<^verbatim>\<open>Vsv\<close> and \<^verbatim>\<open>xy\<close> null.

  The code does not do this. A \<^verbatim>\<open>.npy\<close> file holding a 10 by 2 array fails on line 111,
  where \<^verbatim>\<open>X.item()\<close> needs an array of one element; a \<^verbatim>\<open>.mat\<close> file holding the same array
  passes every check and fails on line 148, where \<^verbatim>\<open>xy\<close> was never assigned.
\<close>

theorem plain_array_files_raise:
  "load_activity (fs_npy (NdArray (zeros [10, 2]))) ''a.npy'' =
     ([Print ''Loading a.npy''],
      Inl (Raised ValueError ''can only convert an array of size 1 to a Python scalar''))
   \<and> load_activity (fs_mat [(''__header__'', zeros []), (''data'', zeros [10, 2])]) ''a.mat'' =
     ([Print ''Loading a.mat''], Inl (Raised UnboundLocalError ''xy''))"
  by (simp add: loader_defs array_defs comp_defs fs_defs read_local_def)

section \<open>No usable data (claim C2)\<close>

text \<open>The loader never returns the null result of line 123, in any file system.\<close>

lemma load_activity_never_returns_null:
  "load_activity ev filename \<noteq> (out, Inr None)"
proof
  assume a: "load_activity ev filename = (out, Inr None)"
  let ?ext = "snd (splitext filename)"
  let ?d = "if ?ext = ''.mat'' then load_mat ev filename
            else if ?ext = ''.npy'' then load_npy ev filename
            else if ?ext = ''.npz'' then load_npz ev filename
            else throw (Raised Exception ''Invalid file type'')"
  from cbind_Inr [OF a [unfolded load_activity_def Let_def]] obtain o2
    where "cbind ?d finish = (o2, Inr None)" by auto
  from cbind_Inr [OF this] obtain o3 f o4 where d: "?d = (o3, Inr f)"
    and fin: "finish f = (o4, Inr None)" by auto
  from d have "fX f \<noteq> XNone \<or> (fUsv f \<noteq> None \<and> fVsv f \<noteq> None)"
    by (auto simp: throw_def split: if_splits
        dest: load_mat_frame load_npy_frame load_npz_frame)
  from finish_not_null [OF this, of o4] fin show False by simp
qed

text \<open>
  Claim C2: for every mapping in which neither \<^verbatim>\<open>X\<close> nor a complete \<^verbatim>\<open>Usv\<close>/\<^verbatim>\<open>Vsv\<close> pair
  resolves, \<^verbatim>\<open>load_activity\<close> returns an all-null result rather than raising.

  The code raises instead: an archive whose only member has an unrecognised name leaves
  \<^verbatim>\<open>U\<close> unbound, and line 45 reads it.
\<close>

theorem unrecognised_mapping_raises:
  "load_activity (fs_npy (NpzFile [(''foo'', zeros [10, 4])])) ''a.npz'' =
     ([Print ''Loading a.npz''], Inl (Raised UnboundLocalError ''U''))"
  by (simp add: loader_defs dict_defs array_defs comp_defs fs_defs)

section \<open>Deriving the scaling (claim C3)\<close>

text \<open>
  Every mapping of the claim's form raises: with an unscaled \<^verbatim>\<open>U\<close> or \<^verbatim>\<open>U0\<close> array and no
  \<^verbatim>\<open>X\<close>, \<^verbatim>\<open>Usv\<close> or \<^verbatim>\<open>Sv\<close> entry, line 45 reads the unbound \<^verbatim>\<open>Sv\<close>, whether or not \<^verbatim>\<open>Vsv\<close> is
  there.
\<close>

lemma unscaled_U_reads_unbound_Sv:
  assumes dom: "set keys \<subseteq> fst ` set dat"
    and noX: "''X'' \<notin> set keys" "''spks'' \<notin> set keys"
    and noSv: "''Sv'' \<notin> set keys" "''sv'' \<notin> set keys"
    and noUsv: "''Usv'' \<notin> set keys"
    and U: "''U'' \<in> set keys \<or> ''U0'' \<in> set keys"
    and arrs: "map_of dat ''U'' \<noteq> Some None" "map_of dat ''U0'' \<noteq> Some None"
  shows "load_dict dat keys = ([], Inl (Raised UnboundLocalError ''Sv''))"
proof -
  from assign_keys_total [OF dom] obtain l where l: "assign_keys dat keys init_locals = Inr l"
    by blast
  have X: "lX l = None"
    using assign_keys_lX [OF l noX] by (simp add: init_locals_def)
  have Sv: "lSv l = Unbound"
    using assign_keys_lSv [OF l noSv] by (simp add: init_locals_def)
  have Usv: "lUsv l = None"
    using assign_keys_lUsv [OF l] noUsv by (simp add: init_locals_def)
  from U arrs assign_keys_lU [OF l] obtain a where Ul: "lU l = Bound (Some a)"
    by (cases "''U'' \<in> set keys") (auto split: if_splits)
  have "factors l = Inl (Raised UnboundLocalError ''Sv'')"
    using X Sv Usv Ul
    by (simp add: factors_def derive_Sv_def cond45_def read_local_def ebind_def)
  from load_dict_factors_raise [OF l this] show ?thesis .
qed

text \<open>
  Claim C3: for every mapping with an unscaled \<^verbatim>\<open>U0\<close> of shape N by k and a scaled \<^verbatim>\<open>Vsv\<close>
  of shape T by k (and no \<^verbatim>\<open>X\<close>, \<^verbatim>\<open>Usv\<close> or \<^verbatim>\<open>Sv\<close>), the loader derives \<^verbatim>\<open>Sv\<close> as the column
  norms of \<^verbatim>\<open>Vsv\<close> and returns \<^verbatim>\<open>Usv = U0 * Sv\<close>.

  The code raises instead: with no \<^verbatim>\<open>Sv\<close> entry the local \<^verbatim>\<open>Sv\<close> is unbound, and the
  condition of line 45 reads it before line 47 could assign it.
\<close>

theorem U0_with_Vsv_raises:
  "load_activity (fs_npy (NpzFile [(''U0'', zeros [10, 2]), (''Vsv'', zeros [5, 2])])) ''a.npz'' =
     ([Print ''Loading a.npz''], Inl (Raised UnboundLocalError ''Sv''))"
  by (simp add: loader_defs dict_defs array_defs comp_defs fs_defs)

section \<open>Validating the factor pair (claim C4)\<close>

text \<open>
  For 2-d arrays the first part of the claim holds: a mapping without \<^verbatim>\<open>X\<close> whose \<^verbatim>\<open>Usv\<close>
  and \<^verbatim>\<open>Vsv\<close> differ in their last length raises the error of line 61.
\<close>

lemma factors_given_pair:
  assumes "lX l = None" "lUsv l = Some u" "lVsv l = Some v"
  shows "factors l = ebind (check_factors l) (\<lambda>_. Inr l)"
proof -
  have same: "l\<lparr>lUsv := Some u, lVsv := Some v\<rparr> = l"
    using assms(2,3) by (cases l) simp
  show ?thesis
    using assms
    by (simp add: factors_def derive_Sv_def cond45_def cond50_def scale_factors_def
        scale_factor_def ebind_def same)
qed

lemma mismatched_pair_raises:
  assumes dom: "set keys \<subseteq> fst ` set dat"
    and noX: "''X'' \<notin> set keys" "''spks'' \<notin> set keys"
    and pair: "''Usv'' \<in> set keys" "''Vsv'' \<in> set keys"
    and arrs: "map_of dat ''Usv'' = Some (Some u)" "map_of dat ''Vsv'' = Some (Some v)"
    and shapes: "shape u = [n, k]" "shape v = [t, k']" "k \<noteq> k'"
  shows "load_dict dat keys =
     ([], Inl (Raised ValueError ''Usv and Vsv must have the same number of components''))"
proof -
  from assign_keys_total [OF dom] obtain l where l: "assign_keys dat keys init_locals = Inr l"
    by blast
  have X: "lX l = None"
    using assign_keys_lX [OF l noX] by (simp add: init_locals_def)
  have U: "lUsv l = Some u"
    using assign_keys_lUsv [OF l] pair(1) arrs(1) by simp
  have V: "lVsv l = Some v"
    using assign_keys_lVsv [OF l] pair(2) arrs(2) by simp
  have "check_factors l =
      Inl (Raised ValueError ''Usv and Vsv must have the same number of components'')"
    using shapes by (intro check_factors_mismatch [OF U V]) simp_all
  then have "factors l =
      Inl (Raised ValueError ''Usv and Vsv must have the same number of components'')"
    by (simp add: factors_given_pair [OF X U V] ebind_def)
  from load_dict_factors_raise [OF l this] show ?thesis .
qed

text \<open>
  Claim C4: without \<^verbatim>\<open>X\<close>, a pair \<^verbatim>\<open>Usv\<close>, \<^verbatim>\<open>Vsv\<close> with different last lengths is a fatal
  validation error that names the mismatch; likewise \<^verbatim>\<open>Usv\<close> with more than 3 dimensions
  or \<^verbatim>\<open>Vsv\<close> with a dimensionality other than 2.

  A 0-d \<^verbatim>\<open>Vsv\<close> has a dimensionality other than 2, but line 60 reads its last length
  before line 64 looks at \<^verbatim>\<open>ndim\<close>: the code raises \<^verbatim>\<open>IndexError\<close>, not the validation error.
\<close>

theorem scalar_Vsv_raises_index_error:
  "load_activity (fs_npy (NpzFile [(''Usv'', zeros [10, 2]), (''Vsv'', zeros [])])) ''a.npz'' =
     ([Print ''Loading a.npz''], Inl (Raised IndexError ''tuple index out of range''))"
  by (simp add: loader_defs dict_defs array_defs comp_defs fs_defs)

section \<open>Validating the activity matrix (claim C5)\<close>

text \<open>
  The checks of lines 125 to 146 themselves do what the claim says: a 1-d array and an
  array of more than three axes are errors, fewer than ten rows are an error, a 2-d array
  passes unchanged and a 3-d array is flattened after the warning.
\<close>

lemma check_X_1d:
  "ndim x = 1 \<Longrightarrow> check_X x =
     ([], Inl (Raised ValueError ''ERROR: 1D array provided, but rastermap requires 2D array''))"
  by (simp add: check_X_def cbind_def throw_def)

lemma check_X_nd:
  "3 < ndim x \<Longrightarrow> check_X x =
     ([], Inl (Raised ValueError ''ERROR: nD array provided (n>3), but rastermap requires 2D array''))"
  by (simp add: check_X_def cbind_def throw_def)

lemma check_X_few_rows_2d:
  "shape x = [n, t] \<Longrightarrow> n < 10 \<Longrightarrow> check_X x =
     ([], Inl (Raised ValueError ''ERROR: matrix with fewer than 10 neurons provided''))"
  by (simp add: check_X_def cbind_def throw_def ret_def lift_def ndim_def shape_at_def)

lemma check_X_few_rows_3d:
  "shape x = [n, t, c] \<Longrightarrow> n < 10 \<Longrightarrow> check_X x =
     ([Warn ''WARNING: 3D array provided (n>3), rastermap requires 2D array, will flatten to 2D''],
      Inl (Raised ValueError ''ERROR: matrix with fewer than 10 neurons provided''))"
  by (simp add: check_X_def cbind_def throw_def emit_def lift_def ndim_def shape_at_def)

lemma check_X_2d:
  "shape x = [n, t] \<Longrightarrow> 10 \<le> n \<Longrightarrow> check_X x = ([], Inr x)"
  by (simp add: check_X_def cbind_def ret_def lift_def ndim_def shape_at_def)

lemma check_X_3d:
  "shape x = [n, t, c] \<Longrightarrow> 10 \<le> n \<Longrightarrow> check_X x =
     ([Warn ''WARNING: 3D array provided (n>3), rastermap requires 2D array, will flatten to 2D'',
       Print (''activity matrix has third dimension of size '' @ str_nat c
              @ '', flattening matrix to size ('' @ str_nat n @ '', '' @ str_nat (t * c))],
      Inr \<lparr>shape = [n, t * c], elems = elems x\<rparr>)"
  by (simp add: check_X_def cbind_def ret_def emit_def lift_def ndim_def shape_at_def
      np_reshape_rows_def arr_size_def ebind_def)

text \<open>
  Claim C5: for every resolved activity matrix \<^verbatim>\<open>X\<close>, a 1D array, an array of more than 3
  dimensions and an array of fewer than 10 rows are fatal errors, and a 3D array is
  returned flattened to 2D after a warning.

  For a 3D array read from a \<^verbatim>\<open>.mat\<close> file the code warns, prints the new size and
  flattens, and then fails on line 148, where \<^verbatim>\<open>xy\<close> was never assigned: nothing is
  returned.
\<close>

theorem plain_3d_mat_raises_after_flatten:
  "load_activity (fs_mat [(''__header__'', zeros []), (''data'', zeros [10, 4, 3])]) ''a.mat'' =
     ([Print ''Loading a.mat'',
       Warn ''WARNING: 3D array provided (n>3), rastermap requires 2D array, will flatten to 2D'',
       Print ''activity matrix has third dimension of size 3, flattening matrix to size (10, 12''],
      Inl (Raised UnboundLocalError ''xy''))"
  by (simp add: loader_defs array_defs comp_defs fs_defs read_local_def np_reshape_rows_def
      str_nat.simps)

section \<open>Unsupported extensions (claim C6)\<close>

text \<open>
  Claim C6: for every path whose extension is none of \<^verbatim>\<open>.mat\<close>, \<^verbatim>\<open>.npy\<close>, \<^verbatim>\<open>.npz\<close>,
  \<^verbatim>\<open>load_activity\<close> raises the fatal error for an unsupported file type and produces no
  partial result. The extension is what \<^verbatim>\<open>os.path.splitext\<close> returns; the error is the
  \<^verbatim>\<open>Exception("Invalid file type")\<close> of line 120; and no reader is called, since the
  result is the same in every file system.
\<close>

theorem load_activity_unsupported_extension:
  "snd (splitext filename) \<notin> {''.mat'', ''.npy'', ''.npz''} \<Longrightarrow>
   load_activity ev filename =
     ([Print (''Loading '' @ filename)], Inl (Raised Exception ''Invalid file type''))"
  by (simp add: load_activity_def comp_defs Let_def)

theorem load_activity_unsupported_extension_witness:
  "snd (splitext ''recording.csv'') \<notin> {''.mat'', ''.npy'', ''.npz''} \<and>
   load_activity fs_empty ''recording.csv'' =
     ([Print ''Loading recording.csv''], Inl (Raised Exception ''Invalid file type''))"
  using load_activity_unsupported_extension [of "''recording.csv''" fs_empty]
  by (simp add: splitext_def rfind_def)

section \<open>Coordinates (claim C7)\<close>

text \<open>
  What holds of the claim: coordinates that are returned have the row count of \<^verbatim>\<open>X\<close> and
  of \<^verbatim>\<open>Usv\<close> (\<open>load_dict_xy_agrees\<close> above), and \<^verbatim>\<open>xpos\<close> and \<^verbatim>\<open>ypos\<close> that are both one
  longer than \<^verbatim>\<open>X\<close> are discarded with the message while \<^verbatim>\<open>X\<close> is returned. With a \<^verbatim>\<open>Usv\<close>
  of ten rows beside \<^verbatim>\<open>X\<close> the stacked coordinates of shape (10, 2) are returned. When
  only \<^verbatim>\<open>xpos\<close> is longer, \<^verbatim>\<open>np.stack\<close> raises on line 68.
\<close>

lemma xpos_longer_than_ypos_raises:
  "load_activity
     (fs_npy (NpzFile [(''X'', zeros [10, 3]), (''xpos'', zeros [11]), (''ypos'', zeros [10])]))
     ''a.npz'' =
     ([Print ''Loading a.npz''],
      Inl (Raised ValueError ''all input arrays must have the same shape''))"
  by (simp add: loader_defs dict_defs array_defs comp_defs fs_defs np_stack_axis1_def)

lemma longer_xpos_ypos_discarded:
  "load_activity
     (fs_npy (NpzFile [(''X'', zeros [10, 3]), (''xpos'', zeros [11]), (''ypos'', zeros [11])]))
     ''a.npz'' =
     ([Print ''Loading a.npz'',
       Print ''cannot use xy from file: x and y positions of neurons are not same size as activity''],
      Inr (Some (Some (zeros [10, 3]), None, None, None)))"
  by (simp add: loader_defs dict_defs array_defs comp_defs fs_defs np_stack_axis1_def)

lemma xpos_ypos_beside_Usv_load:
  "\<exists>xy. load_activity
     (fs_npy (NpzFile [(''X'', zeros [10, 3]), (''Usv'', zeros [10, 2]), (''xpos'', zeros [10]),
                       (''ypos'', zeros [10])]))
     ''a.npz'' =
     ([Print ''Loading a.npz''],
      Inr (Some (Some (zeros [10, 3]), Some (zeros [10, 2]), None, Some xy)))
     \<and> shape xy = [10, 2]"
  by (simp add: loader_defs dict_defs array_defs comp_defs fs_defs np_stack_axis1_def)

text \<open>
  Claim C7: a mapping with \<^verbatim>\<open>xpos\<close> and \<^verbatim>\<open>ypos\<close> of length N beside \<^verbatim>\<open>X\<close> of shape (N, T),
  N at least 10, yields \<^verbatim>\<open>xy\<close> of shape (N, 2) stacked from the two; with \<^verbatim>\<open>xpos\<close> of length
  N+1, \<^verbatim>\<open>xy\<close> is null, a warning is printed and \<^verbatim>\<open>X\<close> is still returned; and returned
  coordinates have the row count of \<^verbatim>\<open>X\<close> when it is present, of \<^verbatim>\<open>Usv\<close> otherwise.

  For the first input the code raises instead: the sizes agree, so the condition of
  line 77 is false and the \<^verbatim>\<open>elif\<close> of line 79 reads \<^verbatim>\<open>Usv.shape\<close>, and \<^verbatim>\<open>Usv\<close> is \<^verbatim>\<open>None\<close>.
\<close>

theorem matching_xpos_ypos_raises:
  "load_activity
     (fs_npy (NpzFile [(''X'', zeros [10, 3]), (''xpos'', zeros [10]), (''ypos'', zeros [10])]))
     ''a.npz'' =
     ([Print ''Loading a.npz''], Inl (Raised AttributeError ''shape''))"
  by (simp add: loader_defs dict_defs array_defs comp_defs fs_defs np_stack_axis1_def)

section \<open>Missing scaling (claim C8)\<close>

text \<open>
  Lines 49 and 54 raise \<^verbatim>\<open>ValueError("no Sv scaling for PCs available")\<close>. Both sit behind a
  condition that ends in \<^verbatim>\<open>Sv is None\<close>, and the loop binds \<^verbatim>\<open>Sv\<close> only for an \<^verbatim>\<open>Sv\<close> or \<^verbatim>\<open>sv\<close>
  entry: without such an entry the condition raises \<^verbatim>\<open>UnboundLocalError\<close> before either
  line is reached. First, what each step can raise.
\<close>

lemma assign_key_error:
  "assign_key dat l key = Inl e \<Longrightarrow> e = Raised KeyError key"
  by (auto simp: assign_key_def getitem_def ebind_def split: if_splits option.splits)

lemma assign_keys_error:
  "assign_keys dat keys l = Inl e \<Longrightarrow> \<exists>key. e = Raised KeyError key"
proof (induction keys arbitrary: l)
  case Nil
  then show ?case by simp
next
  case (Cons k ks)
  then show ?case
    by (auto simp: ebind_Inl_iff dest: assign_key_error)
qed

lemma derive_Sv_unbound:
  assumes "lSv l = Unbound" and "derive_Sv l = Inl e"
  shows "e \<in> {Raised UnboundLocalError ''U'', Raised UnboundLocalError ''V'',
              Raised UnboundLocalError ''Sv''}"
  using assms
  by (cases "lU l"; cases "lV l")
     (auto simp: derive_Sv_def cond45_def cond50_def read_local_def ebind_def
        split: if_splits option.splits)

lemma scale_factor_error:
  "scale_factor name f w sv = Inl e \<Longrightarrow>
   e = Raised UnboundLocalError name \<or> e = Raised UnboundLocalError ''Sv''
   \<or> e = Raised ValueError ''operands could not be broadcast together''"
  by (cases w; cases sv)
     (auto simp: scale_factor_def read_local_def np_multiply_def ebind_def
        split: if_splits option.splits)

lemma scale_factors_error:
  "scale_factors l = Inl e \<Longrightarrow>
   e \<in> {Raised UnboundLocalError ''U'', Raised UnboundLocalError ''V'',
        Raised UnboundLocalError ''Sv'',
        Raised ValueError ''operands could not be broadcast together''}"
  by (auto simp: scale_factors_def ebind_Inl_iff dest!: scale_factor_error)

lemma check_factors_error:
  "check_factors l = Inl e \<Longrightarrow>
   e \<in> {Raised AttributeError ''shape'', Raised IndexError ''tuple index out of range'',
        Raised ValueError ''Usv and Vsv must have the same number of components'',
        Raised ValueError ''Usv cannot have more than 3 dimensions'',
        Raised ValueError ''Vsv must have 2 dimensions''}"
  by (auto simp: check_factors_def attr_of_def ebind_Inl_iff dest!: shape_at_error
      split: option.splits if_splits)

lemma factors_unbound_Sv:
  assumes "lSv l = Unbound" and "factors l = Inl e"
  shows "e \<noteq> Raised ValueError ''no Sv scaling for PCs available''"
proof -
  from assms(2) consider "derive_Sv l = Inl e" | l1 where "scale_factors l1 = Inl e"
    | l2 where "check_factors l2 = Inl e"
    by (auto simp: factors_def ebind_Inl_iff split: if_splits)
  then show ?thesis
  proof cases
    case 1
    from derive_Sv_unbound [OF assms(1) this] show ?thesis by auto
  next
    case 2
    from scale_factors_error [OF this] show ?thesis by auto
  next
    case 3
    from check_factors_error [OF this] show ?thesis by auto
  qed
qed

lemma cbind_Inl:
  "cbind m f = (out, Inl e) \<Longrightarrow>
   m = (out, Inl e) \<or> (\<exists>o1 x o2. m = (o1, Inr x) \<and> f x = (o2, Inl e) \<and> out = o1 @ o2)"
  by (auto simp: cbind_def split: prod.splits sum.splits)

lemma load_dict_without_Sv:
  assumes "''Sv'' \<notin> set keys" "''sv'' \<notin> set keys"
  shows "load_dict dat keys \<noteq> (out, Inl (Raised ValueError ''no Sv scaling for PCs available''))"
proof
  let ?e = "Raised ValueError ''no Sv scaling for PCs available''"
  assume a: "load_dict dat keys = (out, Inl ?e)"
  from cbind_Inl [OF a [unfolded load_dict_def]]
  consider "ebind (assign_keys dat keys init_locals) factors = Inl ?e"
    | l o2 where "cbind (coordinates l) (\<lambda>xy. ret (lX l, lUsv l, lVsv l, xy)) = (o2, Inl ?e)"
    by (auto simp: lift_def)
  then show False
  proof cases
    case 1
    then consider "assign_keys dat keys init_locals = Inl ?e"
      | l where "assign_keys dat keys init_locals = Inr l" "factors l = Inl ?e"
      by (auto simp: ebind_Inl_iff)
    then show False
    proof cases
      case 1
      from assign_keys_error [OF this] show False by simp
    next
      case 2
      have "lSv l = Unbound"
        using assign_keys_lSv [OF 2(1) assms] by (simp add: init_locals_def)
      from factors_unbound_Sv [OF this 2(2)] show False by simp
    qed
  next
    case 2
    from cbind_Inl [OF this] obtain o3 where "coordinates l = (o3, Inl ?e)"
      by (auto simp: ret_def)
    from coordinates_error [OF this] show False by simp
  qed
qed

lemma np_reshape_rows_error:
  "np_reshape_rows x = Inl e \<Longrightarrow>
   e = Raised IndexError ''tuple index out of range'' \<or> e = Raised ValueError ''cannot reshape array''"
  by (auto simp: np_reshape_rows_def ebind_Inl_iff dest!: shape_at_error split: if_splits)

lemma check_X_error:
  "check_X x = (out, Inl e) \<Longrightarrow> e \<noteq> Raised ValueError ''no Sv scaling for PCs available''"
  by (auto simp: check_X_def cbind_def throw_def emit_def ret_def lift_def
      dest!: shape_at_error np_reshape_rows_error split: if_splits sum.splits prod.splits)

lemma finish_error:
  "finish f = (out, Inl e) \<Longrightarrow> e \<noteq> Raised ValueError ''no Sv scaling for PCs available''"
  by (cases "fxy f")
     (auto simp: finish_def cbind_def throw_def ret_def lift_def read_local_def
      dest: check_X_error split: xobj.splits if_splits sum.splits prod.splits)

text \<open>
  So no mapping without an \<^verbatim>\<open>Sv\<close> or \<^verbatim>\<open>sv\<close> key makes the loader report the missing scaling,
  whatever else it holds.
\<close>

lemma no_Sv_entry_never_reports_missing_scaling:
  assumes rd: "reads_mapping ev filename dat keys"
    and noSv: "''Sv'' \<notin> set keys" "''sv'' \<notin> set keys"
  shows "load_activity ev filename \<noteq>
     (out, Inl (Raised ValueError ''no Sv scaling for PCs available''))"
proof
  let ?e = "Raised ValueError ''no Sv scaling for PCs available''"
  assume a: "load_activity ev filename = (out, Inl ?e)"
  from cbind_Inl [OF a [unfolded load_activity_via_dict [OF rd]]] obtain o2
    where "cbind (cbind (load_dict dat keys) (\<lambda>r. ret (frame_of r))) finish = (o2, Inl ?e)"
    by (auto simp: emit_def)
  from cbind_Inl [OF this]
  consider o3 where "cbind (load_dict dat keys) (\<lambda>r. ret (frame_of r)) = (o3, Inl ?e)"
    | f o4 where "finish f = (o4, Inl ?e)"
    by auto
  then show False
  proof cases
    case 1
    from cbind_Inl [OF this] obtain o5 where "load_dict dat keys = (o5, Inl ?e)"
      by (auto simp: ret_def)
    with load_dict_without_Sv [OF noSv] show False by simp
  next
    case 2
    from finish_error [OF this] show False by simp
  qed
qed

text \<open>
  Every mapping with no \<^verbatim>\<open>X\<close>/\<^verbatim>\<open>spks\<close> and no \<^verbatim>\<open>Sv\<close>/\<^verbatim>\<open>sv\<close> entry that holds an unscaled
  \<^verbatim>\<open>U\<close>/\<^verbatim>\<open>U0\<close> array and no \<^verbatim>\<open>Vsv\<close>, or an unscaled \<^verbatim>\<open>V\<close>/\<^verbatim>\<open>V0\<close> array and no \<^verbatim>\<open>Usv\<close>, raises,
  and what it raises is not the error of lines 49 and 54.
\<close>

lemma unscaled_factor_misses_scaling_error:
  assumes rd: "reads_mapping ev filename dat keys"
    and noX: "''X'' \<notin> set keys" "''spks'' \<notin> set keys"
    and noSv: "''Sv'' \<notin> set keys" "''sv'' \<notin> set keys"
    and unscaled:
      "(''Vsv'' \<notin> set keys \<and> (''U'' \<in> set keys \<or> ''U0'' \<in> set keys)
          \<and> map_of dat ''U'' \<noteq> Some None \<and> map_of dat ''U0'' \<noteq> Some None)
       \<or> (''Usv'' \<notin> set keys \<and> (''V'' \<in> set keys \<or> ''V0'' \<in> set keys)
          \<and> map_of dat ''V'' \<noteq> Some None \<and> map_of dat ''V0'' \<noteq> Some None)"
  shows "\<exists>out e. load_activity ev filename = (out, Inl e)
           \<and> e \<noteq> Raised ValueError ''no Sv scaling for PCs available''"
proof -
  have "\<exists>out e. load_activity ev filename = (out, Inl e)"
  proof (cases "assign_keys dat keys init_locals")
    case (Inl e)
    then show ?thesis
      using load_activity_dict_raises [OF rd load_dict_keys_raise] by blast
  next
    case (Inr l)
    have X: "lX l = None"
      using assign_keys_lX [OF Inr noX] by (simp add: init_locals_def)
    have Sv: "lSv l = Unbound"
      using assign_keys_lSv [OF Inr noSv] by (simp add: init_locals_def)
    from unscaled have "\<exists>e. factors l = Inl e"
    proof
      assume u: "''Vsv'' \<notin> set keys \<and> (''U'' \<in> set keys \<or> ''U0'' \<in> set keys)
            \<and> map_of dat ''U'' \<noteq> Some None \<and> map_of dat ''U0'' \<noteq> Some None"
      then have Vsv: "lVsv l = None"
        using assign_keys_lVsv [OF Inr] by (simp add: init_locals_def)
      from u assign_keys_lU [OF Inr] obtain a where "lU l = Bound (Some a)"
        by (cases "''U'' \<in> set keys") (auto split: if_splits)
      with X Sv Vsv show ?thesis by (rule factors_without_Sv_U)
    next
      assume v: "''Usv'' \<notin> set keys \<and> (''V'' \<in> set keys \<or> ''V0'' \<in> set keys)
            \<and> map_of dat ''V'' \<noteq> Some None \<and> map_of dat ''V0'' \<noteq> Some None"
      then have Usv: "lUsv l = None"
        using assign_keys_lUsv [OF Inr] by (simp add: init_locals_def)
      from v assign_keys_lV [OF Inr] obtain a where "lV l = Bound (Some a)"
        by (cases "''V'' \<in> set keys") (auto split: if_splits)
      with X Sv Usv show ?thesis by (rule factors_without_Sv_V)
    qed
    then obtain e where "factors l = Inl e" ..
    then show ?thesis
      using load_activity_dict_raises [OF rd load_dict_factors_raise [OF Inr]] by blast
  qed
  then obtain out e where r: "load_activity ev filename = (out, Inl e)" by blast
  with no_Sv_entry_never_reports_missing_scaling [OF rd noSv, of out]
  have "e \<noteq> Raised ValueError ''no Sv scaling for PCs available''" by auto
  with r show ?thesis by blast
qed

text \<open>
  An archive that holds \<^verbatim>\<open>V\<close> alone fails one operand earlier, at the read of \<^verbatim>\<open>U\<close> on line
  45. The error of line 49 is raised where \<^verbatim>\<open>Sv\<close> is bound to \<^verbatim>\<open>None\<close>, as by a pickled
  dictionary with an \<^verbatim>\<open>Sv\<close> entry that is \<^verbatim>\<open>None\<close>.
\<close>

lemma unscaled_V_alone_reads_unbound_U:
  "load_activity (fs_npy (NpzFile [(''V'', zeros [5, 2])])) ''a.npz'' =
     ([Print ''Loading a.npz''], Inl (Raised UnboundLocalError ''U''))"
  by (simp add: loader_defs dict_defs array_defs comp_defs fs_defs)

lemma None_valued_Sv_reports_missing_scaling:
  "load_activity (fs_npy (ObjDict [(''U'', Some (zeros [10, 2])), (''Sv'', None)])) ''a.npy'' =
     ([Print ''Loading a.npy''], Inl (Raised ValueError ''no Sv scaling for PCs available''))"
  by (simp add: loader_defs dict_defs array_defs comp_defs fs_defs)

text \<open>
  Claim C8: for every mapping that provides an unscaled factor (\<^verbatim>\<open>U\<close> or \<^verbatim>\<open>V\<close>) without an
  \<^verbatim>\<open>Sv\<close>/\<^verbatim>\<open>sv\<close> entry and without the opposite scaled factor, \<^verbatim>\<open>load_activity\<close> raises a
  fatal error reporting the missing scaling information.

  The code raises another error instead: for an archive that holds \<^verbatim>\<open>U\<close> alone, line 45
  finds \<^verbatim>\<open>Usv\<close> to be \<^verbatim>\<open>None\<close> and \<^verbatim>\<open>U\<close> an array and then reads \<^verbatim>\<open>Sv\<close>, which no line has
  bound, so the call ends with \<^verbatim>\<open>UnboundLocalError\<close> and line 49 is never reached.
\<close>

theorem unscaled_U_alone_raises_unbound_Sv:
  "load_activity (fs_npy (NpzFile unscaled_only)) ''a.npz'' =
     ([Print ''Loading a.npz''], Inl (Raised UnboundLocalError ''Sv''))"
  by (simp add: unscaled_only_def loader_defs dict_defs array_defs comp_defs fs_defs)

section \<open>The sibling lookups (claim C9)\<close>

text \<open>
  The classes that the clauses of lines 157 and 168 catch, subclasses included:
  \<^verbatim>\<open>IndexError\<close> and \<^verbatim>\<open>KeyError\<close> are \<^verbatim>\<open>LookupError\<close>s and are not among them.
\<close>

lemma caught_iff:
  "caught (Raised c m) \<longleftrightarrow>
     c \<in> {ValueError, AxisError, OSError, FileNotFoundError, RuntimeError, NotImplementedError,
          TypeError, NameError, UnboundLocalError}"
  by (cases c) (simp_all add: caught_def is_instance_def)

lemma load_iscell_handler:
  "iscell_body ev (iscell_path filename) = Inl e \<Longrightarrow>
   load_iscell ev filename = (if caught e then Inr (None, None) else Inl e)"
  by (simp add: load_iscell_def iscell_path_def Let_def)

lemma load_iscell_success:
  "iscell_body ev (iscell_path filename) = Inr cells \<Longrightarrow>
   load_iscell ev filename = Inr (Some cells, Some (iscell_path filename))"
  by (simp add: load_iscell_def iscell_path_def Let_def)

lemma load_stat_handler:
  "stat_body ev (stat_path filename) = Inl e \<Longrightarrow>
   load_stat ev filename = (if caught e then Inr (None, None) else Inl e)"
  by (simp add: load_stat_def stat_path_def Let_def)

lemma load_stat_success:
  "stat_body ev (stat_path filename) = Inr xy \<Longrightarrow>
   load_stat ev filename = Inr (Some xy, Some (stat_path filename))"
  by (simp add: load_stat_def stat_path_def Let_def)

lemma iscell_body_read_error:
  "np_load ev False p = Inl e \<Longrightarrow> iscell_body ev p = Inl e"
  by (simp add: iscell_body_def ebind_def)

lemma stat_body_read_error:
  "np_load ev True p = Inl e \<Longrightarrow> stat_body ev p = Inl e"
  by (simp add: stat_body_def ebind_def)

lemma index_col_few_axes:
  "length (shape a) < 2 \<Longrightarrow> index_col a j = Inl (Raised IndexError ''too many indices for array'')"
  by (cases "shape a"; cases "tl (shape a)") (auto simp: index_col_def split: list.splits)

lemma iscell_body_few_axes:
  "np_load ev False p = Inr (NdArray a) \<Longrightarrow> length (shape a) < 2 \<Longrightarrow>
   iscell_body ev p = Inl (Raised IndexError ''too many indices for array'')"
  by (simp add: iscell_body_def loaded_col_def index_col_few_axes ebind_def)

lemma iscell_body_one_column:
  "np_load ev False p = Inr (NdArray a) \<Longrightarrow> shape a = n # m # rest \<Longrightarrow> m < 2 \<Longrightarrow>
   iscell_body ev p = Inl (Raised IndexError ''index is out of bounds for axis 1'')"
  by (simp add: iscell_body_def loaded_col_def index_col_def ebind_def)

lemma index_col_first:
  "shape a = n # m # rest \<Longrightarrow> j < m \<Longrightarrow>
   \<exists>c. index_col a j = Inr c \<and> shape c = n # rest"
  by (simp add: index_col_def)

lemma iscell_body_two_columns:
  assumes "np_load ev False p = Inr (NdArray a)"
    and "shape a = n # m # rest" and "2 \<le> m"
  shows "\<exists>c0. index_col a 0 = Inr c0 \<and> shape c0 = n # rest
               \<and> iscell_body ev p = Inr (astype_bool c0)"
proof -
  from assms(2,3) index_col_first [of a n m rest 0] obtain c0
    where c0: "index_col a 0 = Inr c0" "shape c0 = n # rest" by auto
  from assms(2,3) index_col_first [of a n m rest 1] obtain c1
    where c1: "index_col a 1 = Inr c1" by auto
  have "iscell_body ev p = Inr (astype_bool c0)"
    using assms(1) c0(1) c1
    by (simp add: iscell_body_def loaded_col_def ebind_def)
  with c0 show ?thesis by blast
qed

lemma emap_med_of_missing:
  "\<exists>r\<in>set rs. map_of r ''med'' = None \<Longrightarrow>
   emap med_of (map Rec rs) = Inl (Raised KeyError ''med'')"
proof (induction rs)
  case Nil
  then show ?case by simp
next
  case (Cons r rs)
  show ?case
  proof (cases "map_of r ''med''")
    case None
    then show ?thesis by (simp add: med_of_def ebind_def)
  next
    case (Some a)
    with Cons.prems have "\<exists>r\<in>set rs. map_of r ''med'' = None" by auto
    from Cons.IH [OF this] Some show ?thesis by (simp add: med_of_def ebind_def)
  qed
qed

lemma emap_med_of_present:
  "\<forall>r\<in>set rs. map_of r ''med'' \<noteq> None \<Longrightarrow>
   emap med_of (map Rec rs) = Inr (map (\<lambda>r. the (map_of r ''med'')) rs)"
  by (induction rs) (auto simp: med_of_def ebind_def)

lemma stat_body_records:
  "np_load ev True p = Inr (ObjRecords rs) \<Longrightarrow>
   stat_body ev p = ebind (emap med_of (map Rec rs)) np_array"
  by (simp add: stat_body_def iterate_def ebind_def)

lemma stat_body_0d:
  "np_load ev True p = Inr (NdArray a) \<Longrightarrow> shape a = [] \<Longrightarrow>
   stat_body ev p = Inl (Raised TypeError ''iteration over a 0-d array'')"
  by (simp add: stat_body_def iterate_def ebind_def)

lemma np_array_error:
  "np_array ms = Inl e \<Longrightarrow> e = Raised ValueError ''inhomogeneous shape''"
  by (auto simp: np_array_def split: list.splits if_splits)

lemmas sib_defs = iscell_body_def stat_body_def loaded_col_def index_col_def iterate_def
  med_of_def np_array_def astype_bool_def zeros_def ebind_def fs_defs

text \<open>
  Claim C9: for every input the sibling lookups never raise; they return \<^verbatim>\<open>(null, null)\<close>
  on any read or shape error.

  As stated the claim fails: an \<^verbatim>\<open>iscell.npy\<close> that holds a 1-d array makes
  \<^verbatim>\<open>iscell[:, 1]\<close> raise \<^verbatim>\<open>IndexError\<close>, which the clause of line 157 does not list.
\<close>

theorem iscell_1d_raises_index_error:
  "load_iscell (fs_npy (NdArray (zeros [10]))) ''/data/F.npy'' =
     Inl (Raised IndexError ''too many indices for array'')"
  by (simp add: load_iscell_def iscell_body_def loaded_col_def index_col_def
       iscell_path_def path_split_def path_join_def rfind_def rstrip_def
       caught_def is_instance_def array_defs comp_defs fs_defs Let_def)

text \<open>
  Claim C9, amended: each sibling lookup returns \<^verbatim>\<open>(null, null)\<close> exactly for the exceptions
  that its \<^verbatim>\<open>except\<close> clause lists, and raises every other one. Whatever the \<^verbatim>\<open>try\<close> block
  raises, in the read or in the processing after it, is swallowed when its class is
  \<^verbatim>\<open>ValueError\<close>, \<^verbatim>\<open>OSError\<close>, \<^verbatim>\<open>RuntimeError\<close>, \<^verbatim>\<open>TypeError\<close>, \<^verbatim>\<open>NameError\<close> or a subclass of
  these (a missing file is an \<^verbatim>\<open>OSError\<close>), and is raised by the lookup unchanged otherwise;
  when the block raises nothing the result is the value with the sibling's path. So for
  \<^verbatim>\<open>_load_iscell\<close>: a read error is swallowed or raised by its class; an array with fewer
  than two axes, or with fewer than two columns, raises \<^verbatim>\<open>IndexError\<close>; an array with at
  least two columns yields the boolean mask of column 0. For \<^verbatim>\<open>_load_stat\<close>: a read error
  is swallowed or raised by its class; a 0-d array gives \<^verbatim>\<open>(null, null)\<close> (the \<^verbatim>\<open>TypeError\<close>
  of the iteration is swallowed); records of which one lacks \<^verbatim>\<open>med\<close> raise \<^verbatim>\<open>KeyError\<close>;
  records that all hold \<^verbatim>\<open>med\<close> give \<^verbatim>\<open>(null, null)\<close> when \<^verbatim>\<open>np.array\<close> rejects the list of
  their \<^verbatim>\<open>med\<close> arrays (a \<^verbatim>\<open>ValueError\<close>), and the stacked array with the path when it accepts
  it.
\<close>

theorem sibling_lookups_follow_except_clause:
  "(\<forall>e. iscell_body ev (iscell_path filename) = Inl e \<longrightarrow>
        load_iscell ev filename = (if caught e then Inr (None, None) else Inl e))
   \<and> (\<forall>cells. iscell_body ev (iscell_path filename) = Inr cells \<longrightarrow>
        load_iscell ev filename = Inr (Some cells, Some (iscell_path filename)))
   \<and> (\<forall>e. stat_body ev (stat_path filename) = Inl e \<longrightarrow>
        load_stat ev filename = (if caught e then Inr (None, None) else Inl e))
   \<and> (\<forall>xy. stat_body ev (stat_path filename) = Inr xy \<longrightarrow>
        load_stat ev filename = Inr (Some xy, Some (stat_path filename)))
   \<and> (\<forall>c m. caught (Raised c m) \<longleftrightarrow>
          c \<in> {ValueError, AxisError, OSError, FileNotFoundError, RuntimeError,
               NotImplementedError, TypeError, NameError, UnboundLocalError})
   \<and> (\<forall>e. np_load ev False (iscell_path filename) = Inl e \<longrightarrow>
        load_iscell ev filename = (if caught e then Inr (None, None) else Inl e))
   \<and> (\<forall>a. np_load ev False (iscell_path filename) = Inr (NdArray a) \<and> length (shape a) < 2 \<longrightarrow>
        load_iscell ev filename = Inl (Raised IndexError ''too many indices for array''))
   \<and> (\<forall>a n m rest. np_load ev False (iscell_path filename) = Inr (NdArray a)
          \<and> shape a = n # m # rest \<and> m < 2 \<longrightarrow>
        load_iscell ev filename = Inl (Raised IndexError ''index is out of bounds for axis 1''))
   \<and> (\<forall>a n m rest. np_load ev False (iscell_path filename) = Inr (NdArray a)
          \<and> shape a = n # m # rest \<and> 2 \<le> m \<longrightarrow>
        (\<exists>c0. index_col a 0 = Inr c0 \<and> shape c0 = n # rest
           \<and> load_iscell ev filename = Inr (Some (astype_bool c0), Some (iscell_path filename))))
   \<and> (\<forall>e. np_load ev True (stat_path filename) = Inl e \<longrightarrow>
        load_stat ev filename = (if caught e then Inr (None, None) else Inl e))
   \<and> (\<forall>a. np_load ev True (stat_path filename) = Inr (NdArray a) \<and> shape a = [] \<longrightarrow>
        load_stat ev filename = Inr (None, None))
   \<and> (\<forall>rs. np_load ev True (stat_path filename) = Inr (ObjRecords rs)
          \<and> (\<exists>r\<in>set rs. map_of r ''med'' = None) \<longrightarrow>
        load_stat ev filename = Inl (Raised KeyError ''med''))
   \<and> (\<forall>rs e. np_load ev True (stat_path filename) = Inr (ObjRecords rs)
          \<and> (\<forall>r\<in>set rs. map_of r ''med'' \<noteq> None)
          \<and> np_array (map (\<lambda>r. the (map_of r ''med'')) rs) = Inl e \<longrightarrow>
        load_stat ev filename = Inr (None, None))
   \<and> (\<forall>rs xy. np_load ev True (stat_path filename) = Inr (ObjRecords rs)
          \<and> (\<forall>r\<in>set rs. map_of r ''med'' \<noteq> None)
          \<and> np_array (map (\<lambda>r. the (map_of r ''med'')) rs) = Inr xy \<longrightarrow>
        load_stat ev filename = Inr (Some xy, Some (stat_path filename)))"
proof -
  let ?ip = "iscell_path filename"
  let ?sp = "stat_path filename"
  have a1: "\<forall>e. iscell_body ev ?ip = Inl e \<longrightarrow>
        load_iscell ev filename = (if caught e then Inr (None, None) else Inl e)"
    using load_iscell_handler by blast
  have a2: "\<forall>cells. iscell_body ev ?ip = Inr cells \<longrightarrow>
        load_iscell ev filename = Inr (Some cells, Some ?ip)"
    using load_iscell_success by blast
  have a3: "\<forall>e. stat_body ev ?sp = Inl e \<longrightarrow>
        load_stat ev filename = (if caught e then Inr (None, None) else Inl e)"
    using load_stat_handler by blast
  have a4: "\<forall>xy. stat_body ev ?sp = Inr xy \<longrightarrow>
        load_stat ev filename = Inr (Some xy, Some ?sp)"
    using load_stat_success by blast
  have a5: "\<forall>c m. caught (Raised c m) \<longleftrightarrow>
          c \<in> {ValueError, AxisError, OSError, FileNotFoundError, RuntimeError,
               NotImplementedError, TypeError, NameError, UnboundLocalError}"
    using caught_iff by blast
  have a6: "\<forall>e. np_load ev False ?ip = Inl e \<longrightarrow>
        load_iscell ev filename = (if caught e then Inr (None, None) else Inl e)"
    using load_iscell_handler [OF iscell_body_read_error] by blast
  have a7: "\<forall>a. np_load ev False ?ip = Inr (NdArray a) \<and> length (shape a) < 2 \<longrightarrow>
        load_iscell ev filename = Inl (Raised IndexError ''too many indices for array'')"
  proof (intro allI impI, elim conjE)
    fix a assume "np_load ev False ?ip = Inr (NdArray a)" "length (shape a) < 2"
    from load_iscell_handler [OF iscell_body_few_axes [OF this]]
    show "load_iscell ev filename = Inl (Raised IndexError ''too many indices for array'')"
      by (simp add: caught_iff)
  qed
  have a8: "\<forall>a n m rest. np_load ev False ?ip = Inr (NdArray a)
          \<and> shape a = n # m # rest \<and> m < 2 \<longrightarrow>
        load_iscell ev filename = Inl (Raised IndexError ''index is out of bounds for axis 1'')"
  proof (intro allI impI, elim conjE)
    fix a n m rest
    assume "np_load ev False ?ip = Inr (NdArray a)" "shape a = n # m # rest" "m < 2"
    from load_iscell_handler [OF iscell_body_one_column [OF this]]
    show "load_iscell ev filename = Inl (Raised IndexError ''index is out of bounds for axis 1'')"
      by (simp add: caught_iff)
  qed
  have a9: "\<forall>a n m rest. np_load ev False ?ip = Inr (NdArray a)
          \<and> shape a = n # m # rest \<and> 2 \<le> m \<longrightarrow>
        (\<exists>c0. index_col a 0 = Inr c0 \<and> shape c0 = n # rest
           \<and> load_iscell ev filename = Inr (Some (astype_bool c0), Some ?ip))"
  proof (intro allI impI, elim conjE)
    fix a n m rest
    assume "np_load ev False ?ip = Inr (NdArray a)" "shape a = n # m # rest" "2 \<le> m"
    from iscell_body_two_columns [OF this] obtain c0
      where c: "index_col a 0 = Inr c0" "shape c0 = n # rest"
        and b: "iscell_body ev ?ip = Inr (astype_bool c0)" by blast
    from load_iscell_success [OF b] c
    show "\<exists>c0. index_col a 0 = Inr c0 \<and> shape c0 = n # rest
           \<and> load_iscell ev filename = Inr (Some (astype_bool c0), Some ?ip)" by blast
  qed
  have a10: "\<forall>e. np_load ev True ?sp = Inl e \<longrightarrow>
        load_stat ev filename = (if caught e then Inr (None, None) else Inl e)"
    using load_stat_handler [OF stat_body_read_error] by blast
  have a11: "\<forall>a. np_load ev True ?sp = Inr (NdArray a) \<and> shape a = [] \<longrightarrow>
        load_stat ev filename = Inr (None, None)"
  proof (intro allI impI, elim conjE)
    fix a assume "np_load ev True ?sp = Inr (NdArray a)" "shape a = []"
    from load_stat_handler [OF stat_body_0d [OF this]]
    show "load_stat ev filename = Inr (None, None)" by (simp add: caught_iff)
  qed
  have a12: "\<forall>rs. np_load ev True ?sp = Inr (ObjRecords rs)
          \<and> (\<exists>r\<in>set rs. map_of r ''med'' = None) \<longrightarrow>
        load_stat ev filename = Inl (Raised KeyError ''med'')"
  proof (intro allI impI, elim conjE)
    fix rs assume rd: "np_load ev True ?sp = Inr (ObjRecords rs)"
      and mis: "\<exists>r\<in>set rs. map_of r ''med'' = None"
    have "stat_body ev ?sp = Inl (Raised KeyError ''med'')"
      by (simp add: stat_body_records [OF rd] emap_med_of_missing [OF mis] ebind_def)
    from load_stat_handler [OF this]
    show "load_stat ev filename = Inl (Raised KeyError ''med'')" by (simp add: caught_iff)
  qed
  have a13: "\<forall>rs e. np_load ev True ?sp = Inr (ObjRecords rs)
          \<and> (\<forall>r\<in>set rs. map_of r ''med'' \<noteq> None)
          \<and> np_array (map (\<lambda>r. the (map_of r ''med'')) rs) = Inl e \<longrightarrow>
        load_stat ev filename = Inr (None, None)"
  proof (intro allI impI, elim conjE)
    fix rs e assume rd: "np_load ev True ?sp = Inr (ObjRecords rs)"
      and pre: "\<forall>r\<in>set rs. map_of r ''med'' \<noteq> None"
      and er: "np_array (map (\<lambda>r. the (map_of r ''med'')) rs) = Inl e"
    have "stat_body ev ?sp = Inl e"
      by (simp add: stat_body_records [OF rd] emap_med_of_present [OF pre] er ebind_def)
    from load_stat_handler [OF this] np_array_error [OF er]
    show "load_stat ev filename = Inr (None, None)" by (simp add: caught_iff)
  qed
  have a14: "\<forall>rs xy. np_load ev True ?sp = Inr (ObjRecords rs)
          \<and> (\<forall>r\<in>set rs. map_of r ''med'' \<noteq> None)
          \<and> np_array (map (\<lambda>r. the (map_of r ''med'')) rs) = Inr xy \<longrightarrow>
        load_stat ev filename = Inr (Some xy, Some ?sp)"
  proof (intro allI impI, elim conjE)
    fix rs xy assume rd: "np_load ev True ?sp = Inr (ObjRecords rs)"
      and pre: "\<forall>r\<in>set rs. map_of r ''med'' \<noteq> None"
      and ok: "np_array (map (\<lambda>r. the (map_of r ''med'')) rs) = Inr xy"
    have "stat_body ev ?sp = Inr xy"
      by (simp add: stat_body_records [OF rd] emap_med_of_present [OF pre] ok ebind_def)
    from load_stat_success [OF this]
    show "load_stat ev filename = Inr (Some xy, Some ?sp)" .
  qed
  show ?thesis
    by (intro conjI) (fact a1 a2 a3 a4 a5 a6 a7 a8 a9 a10 a11 a12 a13 a14)+
qed

theorem sibling_lookups_follow_except_clause_witness:
  "np_load fs_empty False (iscell_path ''/data/F.npy'') =
     Inl (Raised FileNotFoundError ''No such file or directory'')
   \<and> np_load fs_empty True (stat_path ''/data/F.npy'') =
     Inl (Raised FileNotFoundError ''No such file or directory'')
   \<and> caught (Raised FileNotFoundError ''No such file or directory'')
   \<and> load_iscell fs_empty ''/data/F.npy'' = Inr (None, None)
   \<and> load_stat fs_empty ''/data/F.npy'' = Inr (None, None)
   \<and> iscell_body (fs_npy (NdArray (zeros [3]))) (iscell_path ''/data/F.npy'') =
       Inl (Raised IndexError ''too many indices for array'')
   \<and> \<not> caught (Raised IndexError ''too many indices for array'')
   \<and> load_iscell (fs_npy (NdArray (zeros [3]))) ''/data/F.npy'' =
       Inl (Raised IndexError ''too many indices for array'')
   \<and> load_iscell (fs_npy (NdArray (zeros [3, 1]))) ''/data/F.npy'' =
       Inl (Raised IndexError ''index is out of bounds for axis 1'')
   \<and> iscell_body (fs_npy (NdArray (zeros [3, 2]))) (iscell_path ''/data/F.npy'') =
       Inr \<lparr>shape = [3], elems = [False, False, False]\<rparr>
   \<and> load_iscell (fs_npy (NdArray (zeros [3, 2]))) ''/data/F.npy'' =
       Inr (Some \<lparr>shape = [3], elems = [False, False, False]\<rparr>, Some (iscell_path ''/data/F.npy''))
   \<and> stat_body (fs_npy (NdArray (zeros []))) (stat_path ''/data/F.npy'') =
       Inl (Raised TypeError ''iteration over a 0-d array'')
   \<and> load_stat (fs_npy (NdArray (zeros []))) ''/data/F.npy'' = Inr (None, None)
   \<and> load_stat (fs_npy (ObjRecords [[(''med'', zeros [2])], [(''npix'', zeros [])]])) ''/data/F.npy'' =
       Inl (Raised KeyError ''med'')
   \<and> np_array [zeros [2], zeros [3]] = Inl (Raised ValueError ''inhomogeneous shape'')
   \<and> load_stat (fs_npy (ObjRecords [[(''med'', zeros [2])], [(''med'', zeros [3])]])) ''/data/F.npy'' =
       Inr (None, None)
   \<and> stat_body (fs_npy (ObjRecords [[(''med'', zeros [2])], [(''med'', zeros [2])]]))
         (stat_path ''/data/F.npy'') = Inr \<lparr>shape = [2, 2], elems = [0, 0, 0, 0]\<rparr>
   \<and> load_stat (fs_npy (ObjRecords [[(''med'', zeros [2])], [(''med'', zeros [2])]])) ''/data/F.npy'' =
       Inr (Some \<lparr>shape = [2, 2], elems = [0, 0, 0, 0]\<rparr>, Some (stat_path ''/data/F.npy''))
   \<and> load_iscell (fs_npy (NdArray (zeros []))) ''/data/F.npy'' =
       Inl (Raised IndexError ''too many indices for array'')
   \<and> (\<exists>c0. index_col (zeros [2, 3]) 0 = Inr c0 \<and> shape c0 = [2]
         \<and> load_iscell (fs_npy (NdArray (zeros [2, 3]))) ''/data/F.npy'' =
             Inr (Some (astype_bool c0), Some (iscell_path ''/data/F.npy'')))
   \<and> stat_body (fs_npy (ObjDict [])) (stat_path ''/data/F.npy'') =
       Inl (Raised TypeError ''iteration over a 0-d array'')
   \<and> load_stat (fs_npy (ObjDict [])) ''/data/F.npy'' = Inr (None, None)
   \<and> np_array [zeros [2]] = Inr \<lparr>shape = [1, 2], elems = [0, 0]\<rparr>
   \<and> load_stat (fs_npy (ObjRecords [[(''med'', zeros [2])]])) ''/data/F.npy'' =
       Inr (Some \<lparr>shape = [1, 2], elems = [0, 0]\<rparr>, Some (stat_path ''/data/F.npy''))"
proof -
  let ?F = "''/data/F.npy''"
  let ?ip = "iscell_path ?F"
  let ?sp = "stat_path ?F"
  let ?one = "fs_npy (NdArray (zeros [3]))"
  let ?col = "fs_npy (NdArray (zeros [3, 1]))"
  let ?two = "fs_npy (NdArray (zeros [3, 2]))"
  let ?nul = "fs_npy (NdArray (zeros []))"
  let ?mis = "fs_npy (ObjRecords [[(''med'', zeros [2])], [(''npix'', zeros [])]])"
  let ?rag = "fs_npy (ObjRecords [[(''med'', zeros [2])], [(''med'', zeros [3])]])"
  let ?rec = "fs_npy (ObjRecords [[(''med'', zeros [2])], [(''med'', zeros [2])]])"
  note T = sibling_lookups_follow_except_clause
  note C5 = T [of fs_empty ?F, THEN conjunct2, THEN conjunct2, THEN conjunct2, THEN conjunct2,
      THEN conjunct1]
  have p: "np_load fs_empty False ?ip = Inl (Raised FileNotFoundError ''No such file or directory'')"
    by (simp add: fs_defs)
  have q: "np_load fs_empty True ?sp = Inl (Raised FileNotFoundError ''No such file or directory'')"
    by (simp add: fs_defs)
  have c: "caught (Raised FileNotFoundError ''No such file or directory'')"
    using C5 by simp
  have n: "\<not> caught (Raised IndexError ''too many indices for array'')"
    using C5 by simp
  have e1: "load_iscell fs_empty ?F = Inr (None, None)"
    using T [of fs_empty ?F, THEN conjunct2, THEN conjunct2, THEN conjunct2, THEN conjunct2,
      THEN conjunct2, THEN conjunct1] p c by simp
  have e2: "load_stat fs_empty ?F = Inr (None, None)"
    using T [of fs_empty ?F, THEN conjunct2, THEN conjunct2, THEN conjunct2, THEN conjunct2,
      THEN conjunct2, THEN conjunct2, THEN conjunct2, THEN conjunct2, THEN conjunct2,
      THEN conjunct1] q c by simp
  have b1: "iscell_body ?one ?ip = Inl (Raised IndexError ''too many indices for array'')"
    by (simp add: sib_defs)
  have o1: "load_iscell ?one ?F = Inl (Raised IndexError ''too many indices for array'')"
    using T [of ?one ?F, THEN conjunct1] b1 n by simp
  have ld: "\<And>obj b p. np_load (fs_npy obj) b p = Inr obj"
    by (simp add: fs_defs)
  have o2: "load_iscell ?col ?F = Inl (Raised IndexError ''index is out of bounds for axis 1'')"
    using T [of ?col ?F, THEN conjunct2, THEN conjunct2, THEN conjunct2, THEN conjunct2,
      THEN conjunct2, THEN conjunct2, THEN conjunct2, THEN conjunct1, rule_format,
      of "zeros [3, 1]" 3 1 "[]"]
    by (simp add: ld zeros_def)
  have b3: "iscell_body ?two ?ip = Inr \<lparr>shape = [3], elems = [False, False, False]\<rparr>"
    by (simp add: sib_defs upt_rec)
  have o3: "load_iscell ?two ?F =
      Inr (Some \<lparr>shape = [3], elems = [False, False, False]\<rparr>, Some ?ip)"
    using T [of ?two ?F, THEN conjunct2, THEN conjunct1] b3 by simp
  have b4: "stat_body ?nul ?sp = Inl (Raised TypeError ''iteration over a 0-d array'')"
    by (simp add: sib_defs)
  have o4: "load_stat ?nul ?F = Inr (None, None)"
    using T [of ?nul ?F, THEN conjunct2, THEN conjunct2, THEN conjunct2, THEN conjunct2,
      THEN conjunct2, THEN conjunct2, THEN conjunct2, THEN conjunct2, THEN conjunct2,
      THEN conjunct2, THEN conjunct1, rule_format, of "zeros []"]
    by (simp add: ld zeros_def)
  have o5: "load_stat ?mis ?F = Inl (Raised KeyError ''med'')"
    using T [of ?mis ?F, THEN conjunct2, THEN conjunct2, THEN conjunct2, THEN conjunct2,
      THEN conjunct2, THEN conjunct2, THEN conjunct2, THEN conjunct2, THEN conjunct2,
      THEN conjunct2, THEN conjunct2, THEN conjunct1, rule_format,
      of "[[(''med'', zeros [2])], [(''npix'', zeros [])]]"]
    by (simp add: ld)
  have r6: "np_array [zeros [2], zeros [3]] = Inl (Raised ValueError ''inhomogeneous shape'')"
    by (simp add: np_array_def zeros_def)
  have o6: "load_stat ?rag ?F = Inr (None, None)"
    using T [of ?rag ?F, THEN conjunct2, THEN conjunct2, THEN conjunct2, THEN conjunct2,
      THEN conjunct2, THEN conjunct2, THEN conjunct2, THEN conjunct2, THEN conjunct2,
      THEN conjunct2, THEN conjunct2, THEN conjunct2, THEN conjunct1, rule_format,
      of "[[(''med'', zeros [2])], [(''med'', zeros [3])]]"
         "Raised ValueError ''inhomogeneous shape''"] r6
    by (simp add: ld)
  have b7: "stat_body ?rec ?sp = Inr \<lparr>shape = [2, 2], elems = [0, 0, 0, 0]\<rparr>"
    by (simp add: sib_defs numeral_2_eq_2)
  have o7: "load_stat ?rec ?F = Inr (Some \<lparr>shape = [2, 2], elems = [0, 0, 0, 0]\<rparr>, Some ?sp)"
    using T [of ?rec ?F, THEN conjunct2, THEN conjunct2, THEN conjunct2, THEN conjunct1] b7
    by simp
  have o8: "load_iscell ?nul ?F = Inl (Raised IndexError ''too many indices for array'')"
    using T [of ?nul ?F, THEN conjunct2, THEN conjunct2, THEN conjunct2, THEN conjunct2,
      THEN conjunct2, THEN conjunct2, THEN conjunct1, rule_format, of "zeros []"]
    by (simp add: ld zeros_def)
  have o9: "\<exists>c0. index_col (zeros [2, 3]) 0 = Inr c0 \<and> shape c0 = [2]
         \<and> load_iscell (fs_npy (NdArray (zeros [2, 3]))) ?F = Inr (Some (astype_bool c0), Some ?ip)"
    using T [of "fs_npy (NdArray (zeros [2, 3]))" ?F, THEN conjunct2, THEN conjunct2,
      THEN conjunct2, THEN conjunct2, THEN conjunct2, THEN conjunct2, THEN conjunct2,
      THEN conjunct2, THEN conjunct1, rule_format, of "zeros [2, 3]" 2 3 "[]"]
    by (simp add: ld zeros_def)
  have b10: "stat_body (fs_npy (ObjDict [])) ?sp = Inl (Raised TypeError ''iteration over a 0-d array'')"
    by (simp add: sib_defs)
  have t: "caught (Raised TypeError ''iteration over a 0-d array'')"
    using C5 by simp
  have o10: "load_stat (fs_npy (ObjDict [])) ?F = Inr (None, None)"
    using T [of "fs_npy (ObjDict [])" ?F, THEN conjunct2, THEN conjunct2, THEN conjunct1] b10 t
    by simp
  have r11: "np_array [zeros [2]] = Inr \<lparr>shape = [1, 2], elems = [0, 0]\<rparr>"
    by (simp add: np_array_def zeros_def numeral_2_eq_2)
  have o11: "load_stat (fs_npy (ObjRecords [[(''med'', zeros [2])]])) ?F =
      Inr (Some \<lparr>shape = [1, 2], elems = [0, 0]\<rparr>, Some ?sp)"
    using T [of "fs_npy (ObjRecords [[(''med'', zeros [2])]])" ?F, THEN conjunct2, THEN conjunct2,
      THEN conjunct2, THEN conjunct2, THEN conjunct2, THEN conjunct2, THEN conjunct2,
      THEN conjunct2, THEN conjunct2, THEN conjunct2, THEN conjunct2, THEN conjunct2,
      THEN conjunct2, rule_format,
      of "[[(''med'', zeros [2])]]" "\<lparr>shape = [1, 2], elems = [0, 0]\<rparr>"] r11
    by (simp add: ld)
  show ?thesis
    by (intro conjI)
       (fact p q c e1 e2 b1 n o1 o2 b3 o3 b4 o4 o5 r6 o6 b7 o7 o8 o9 b10 o10 r11 o11)+
qed

section \<open>A mapping that holds X (claim C10)\<close>

text \<open>
  Claim C10: for every mapping in which an \<^verbatim>\<open>X\<close> entry (key \<^verbatim>\<open>X\<close> or \<^verbatim>\<open>spks\<close>) resolves,
  the derivation and validation of the factor pair are skipped: the \<^verbatim>\<open>Usv\<close> and \<^verbatim>\<open>Vsv\<close>
  entries of the mapping are returned as they are, and a mismatched pair does not raise.
  Here \<^verbatim>\<open>l\<close> holds the locals after the loop of lines 12 to 42: the result is that of the
  coordinate step alone, \<^verbatim>\<open>Usv\<close> and \<^verbatim>\<open>Vsv\<close> are the mapping's entries (or \<^verbatim>\<open>None\<close>), a mapping
  without coordinates is returned without any error, and no error of lines 44 to 65
  is ever raised.
\<close>

theorem X_present_skips_factor_steps:
  assumes keys: "assign_keys dat keys init_locals = Inr l" and X: "lX l = Some x"
  shows "load_dict dat keys = cbind (coordinates l) (\<lambda>xy. ret (Some x, lUsv l, lVsv l, xy))
       \<and> (if ''Usv'' \<in> set keys then map_of dat ''Usv'' = Some (lUsv l) else lUsv l = None)
       \<and> (if ''Vsv'' \<in> set keys then map_of dat ''Vsv'' = Some (lVsv l) else lVsv l = None)
       \<and> (lxpos l = None \<and> lxy l = None \<longrightarrow>
            load_dict dat keys = ([], Inr (Some x, lUsv l, lVsv l, None)))
       \<and> (\<forall>out e. load_dict dat keys = (out, Inl e) \<longrightarrow> e \<notin> set factor_errors)"
proof -
  have skip: "load_dict dat keys = cbind (coordinates l) (\<lambda>xy. ret (Some x, lUsv l, lVsv l, xy))"
    using keys X by (simp add: load_dict_def factors_def cbind_def lift_def ebind_def)
  have usv: "if ''Usv'' \<in> set keys then map_of dat ''Usv'' = Some (lUsv l) else lUsv l = None"
    using assign_keys_lUsv [OF keys] by (simp add: init_locals_def)
  have vsv: "if ''Vsv'' \<in> set keys then map_of dat ''Vsv'' = Some (lVsv l) else lVsv l = None"
    using assign_keys_lVsv [OF keys] by (simp add: init_locals_def)
  have plain: "lxpos l = None \<and> lxy l = None \<longrightarrow>
      load_dict dat keys = ([], Inr (Some x, lUsv l, lVsv l, None))"
    by (simp add: skip coordinates_none cbind_def ret_def)
  have errs: "\<forall>out e. load_dict dat keys = (out, Inl e) \<longrightarrow> e \<notin> set factor_errors"
  proof (intro allI impI)
    fix out e
    assume "load_dict dat keys = (out, Inl e)"
    then have "\<exists>out'. coordinates l = (out', Inl e)"
      unfolding skip by (auto simp: cbind_def ret_def split: prod.splits sum.splits)
    then obtain out' where "coordinates l = (out', Inl e)" ..
    from coordinates_error [OF this] show "e \<notin> set factor_errors"
      by (auto simp: factor_errors_def)
  qed
  from skip usv vsv plain errs show ?thesis by blast
qed

theorem X_present_skips_factor_steps_witness:
  "assign_keys mismatched_with_X (map fst mismatched_with_X) init_locals =
     Inr (init_locals\<lparr>lX := Some (zeros [10, 3]), lUsv := Some (zeros [10, 2]),
                      lVsv := Some (zeros [5, 3])\<rparr>)
   \<and> load_dict mismatched_with_X (map fst mismatched_with_X) =
       ([], Inr (Some (zeros [10, 3]), Some (zeros [10, 2]), Some (zeros [5, 3]), None))"
proof -
  let ?l = "init_locals\<lparr>lX := Some (zeros [10, 3]), lUsv := Some (zeros [10, 2]),
                      lVsv := Some (zeros [5, 3])\<rparr>"
  have k: "assign_keys mismatched_with_X (map fst mismatched_with_X) init_locals = Inr ?l"
    by (simp add: mismatched_with_X_def assign_key_def getitem_def ebind_def init_locals_def)
  have x: "lX ?l = Some (zeros [10, 3])" by simp
  have c: "lxpos ?l = None \<and> lxy ?l = None" by (simp add: init_locals_def)
  have "load_dict mismatched_with_X (map fst mismatched_with_X) =
       ([], Inr (Some (zeros [10, 3]), lUsv ?l, lVsv ?l, None))"
    using X_present_skips_factor_steps [OF k x, THEN conjunct2, THEN conjunct2, THEN conjunct2,
        THEN conjunct1] c
    by blast
  then have "load_dict mismatched_with_X (map fst mismatched_with_X) =
       ([], Inr (Some (zeros [10, 3]), Some (zeros [10, 2]), Some (zeros [5, 3]), None))"
    by simp
  with k show ?thesis by simp
qed

end
